theory Spec2Isabelle
  imports Main "HOL-Library.Sublist"
begin

section \<open>Python primitives used by \<^verbatim>\<open>application/app.py\<close>\<close>

text \<open>
  Python exceptions that the modelled code can raise are values of \<open>error\<close>; a computation
  that may raise returns \<open>error + 'a\<close> with \<open>Inl\<close> for the exception.  \<open>External\<close> stands
  for any exception raised inside a collaborator (index, model backend, database driver).
\<close>

datatype error =
    IndexError
  | KeyError string
  | UnboundLocalError string
  | ValueError string
  | InvalidId string
  | External string

text \<open>\<^verbatim>\<open>xs[i]\<close> for a non-negative literal index \<open>i\<close>.\<close>

definition py_index :: "'a list \<Rightarrow> nat \<Rightarrow> error + 'a" where
  "py_index xs i = (if i < length xs then Inr (xs ! i) else Inl IndexError)"

text \<open>
  \<^verbatim>\<open>s.split(sep)\<close> for a non-empty separator: the pieces between the leftmost,
  non-overlapping occurrences of \<open>sep\<close>.  Every call site passes a non-empty literal
  (Python raises \<^verbatim>\<open>ValueError\<close> on an empty separator, which no call site can trigger).
  The result is never the empty list.
\<close>

fun py_split :: "string \<Rightarrow> string \<Rightarrow> string list" where
  "py_split sep [] = [[]]"
| "py_split sep (c # cs) =
     (if sep \<noteq> [] \<and> prefix sep (c # cs)
      then [] # py_split sep (drop (length sep) (c # cs))
      else (case py_split sep cs of
              [] \<Rightarrow> [[c]]
            | p # ps \<Rightarrow> (c # p) # ps))"

text \<open>\<^verbatim>\<open>s.replace(old, new)\<close> for a non-empty \<open>old\<close>: every leftmost, non-overlapping
  occurrence is replaced.\<close>

fun py_replace :: "string \<Rightarrow> string \<Rightarrow> string \<Rightarrow> string" where
  "py_replace old new [] = []"
| "py_replace old new (c # cs) =
     (if old \<noteq> [] \<and> prefix old (c # cs)
      then new @ py_replace old new (drop (length old) (c # cs))
      else c # py_replace old new cs)"

text \<open>\<^verbatim>\<open>sep.join(xs)\<close>.\<close>

fun py_join :: "string \<Rightarrow> string list \<Rightarrow> string" where
  "py_join sep [] = []"
| "py_join sep [x] = x"
| "py_join sep (x # y # ys) = x @ sep @ py_join sep (y # ys)"

text \<open>\<^verbatim>\<open>os.path.join(a, b)\<close> with two arguments, POSIX flavour.\<close>

definition os_path_join :: "string \<Rightarrow> string \<Rightarrow> string" where
  "os_path_join a b =
     (if prefix ''/'' b then b
      else if a = [] \<or> last a = CHR ''/'' then a @ b
      else a @ ''/'' @ b)"

section \<open>\<^verbatim>\<open>get_vectorstore\<close>\<close>

text \<open>
  The request dictionary \<open>data\<close> is a map from keys to string values; the only key read
  here is \<^verbatim>\<open>"active_docs"\<close>.
\<close>

definition get_vectorstore :: "(string \<rightharpoonup> string) \<Rightarrow> error + string" where
  "get_vectorstore data =
     (case data ''active_docs'' of
        None \<Rightarrow> Inr (os_path_join ''application'' '''')
      | Some active_docs \<Rightarrow>
          (case py_index (py_split ''/'' active_docs) 0 of
             Inl e \<Rightarrow> Inl e
           | Inr scope \<Rightarrow>
               (case (if scope = ''local''
                      then (case py_index (py_split ''/'' active_docs) 1 of
                              Inl e \<Rightarrow> Inl e
                            | Inr name \<Rightarrow>
                                Inr (if name = ''default'' then ''''
                                     else ''indexes/'' @ active_docs))
                      else Inr (''vectors/'' @ active_docs)) of
                  Inl e \<Rightarrow> Inl e
                | Inr vectorstore \<Rightarrow>
                    Inr (os_path_join ''application''
                           (if active_docs = ''default'' then '''' else vectorstore)))))"

section \<open>Data model of the answer pipeline\<close>

text \<open>
  A history item is a JSON object, that is a dictionary; the code reads the keys
  \<^verbatim>\<open>"prompt"\<close> and \<^verbatim>\<open>"response"\<close> only.  A retrieved document has its text and a metadata
  dictionary (an association list: its truth value is non-emptiness).
\<close>

type_synonym turn = "string \<rightharpoonup> string"

record document =
  page_content :: string
  metadata :: "(string \<times> string) list"

text \<open>The index handle: \<^verbatim>\<open>docsearch.similarity_search(question, k)\<close>.\<close>

type_synonym docsearch = "string \<Rightarrow> nat \<Rightarrow> error + document list"

text \<open>A chat message of the OpenAI wire format, \<^verbatim>\<open>{"role": ..., "content": ...}\<close>.\<close>

record message =
  role :: string
  content :: string

text \<open>The langchain message templates and messages built by \<^verbatim>\<open>api_answer\<close>.\<close>

datatype message_template =
    SystemMessagePromptTemplate string
  | HumanMessagePromptTemplate string
  | AIMessagePromptTemplate string

datatype lc_message = AIMessage string | HumanMessage string

datatype llm = AzureChatOpenAI | ChatOpenAI | OpenAI | HuggingFacePipeline | Cohere

datatype embeddings =
    OpenAIEmbeddings bool
  | HuggingFaceHubEmbeddings
  | HuggingFaceInstructEmbeddings
  | CohereEmbeddings

datatype chain =
    ConversationalRetrievalChain llm "message_template list"
  | VectorDBQA llm

text \<open>One entry of \<^verbatim>\<open>source_log_docs\<close> / \<^verbatim>\<open>sources_doc\<close>: \<^verbatim>\<open>{"title": ..., "text": ...}\<close>.\<close>

record source_doc =
  src_title :: string
  src_text :: string

text \<open>A stored query and a stored conversation document.\<close>

record query =
  prompt :: string
  response :: string
  sources :: "source_doc list"

record conversation =
  user :: string
  date :: string
  name :: string
  queries :: "query list"

text \<open>
  \<^verbatim>\<open>conversations_collection\<close>: documents keyed by the hexadecimal form of their
  \<^verbatim>\<open>_id\<close>.  \<^verbatim>\<open>update_one(filter, {"$push": {"queries": q}})\<close> is called without
  \<^verbatim>\<open>upsert\<close>: the driver appends to the matching document, and changes nothing and
  raises nothing when no document matches.  \<^verbatim>\<open>insert_one\<close> stores the document under
  a freshly generated identifier.
\<close>

type_synonym store = "string \<rightharpoonup> conversation"

definition update_one_push :: "store \<Rightarrow> string \<Rightarrow> query \<Rightarrow> store" where
  "update_one_push db oid q =
     (case db oid of
        None \<Rightarrow> db
      | Some c \<Rightarrow> db(oid \<mapsto> c\<lparr>queries := queries c @ [q]\<rparr>))"

definition insert_one :: "store \<Rightarrow> string \<Rightarrow> conversation \<Rightarrow> store" where
  "insert_one db oid c = db(oid \<mapsto> c)"

text \<open>
  The configuration read from \<^verbatim>\<open>settings\<close>.  \<open>is_azure_configured\<close> is the truth value
  of the conjunction of the three Azure settings.
\<close>

record settings =
  LLM_NAME :: string
  SELF_HOSTED_MODEL :: bool
  EMBEDDINGS_NAME :: string
  TOKENS_MAX_HISTORY :: int
  is_azure_configured :: bool

text \<open>
  One increment of a streamed completion: the \<^verbatim>\<open>delta\<close> of a line either has no
  \<^verbatim>\<open>"content"\<close> key, or has one whose value is a string or JSON null.
\<close>

datatype delta = No_content | Content "string option"

text \<open>\<^verbatim>\<open>str(x)\<close> for a string or \<^verbatim>\<open>None\<close>.\<close>

fun py_str :: "string option \<Rightarrow> string" where
  "py_str None = ''None''"
| "py_str (Some s) = s"

text \<open>
  The collaborators and module globals.  Each field is one call site of the source:
  \<^item> \<open>chat_combine_template\<close>: the text of \<^verbatim>\<open>prompts/chat_combine_prompt.txt\<close>, a
    well-formed format string with the placeholder \<^verbatim>\<open>{summaries}\<close>;
  \<^item> \<open>from_template\<close>: the exception, if any, that \<^verbatim>\<open>from_template(text)\<close> of the message
    prompt templates raises when it parses \<open>text\<close> as a format string (an unbalanced
    brace, for one); the template file and the literal \<^verbatim>\<open>{question}\<close> are accepted;
  \<^item> \<open>load_local\<close>: \<^verbatim>\<open>FAISS.load_local(vectorstore, embeddings)\<close>;
  \<^item> \<open>get_num_tokens\<close>: \<^verbatim>\<open>llm.get_num_tokens(text)\<close>;
  \<^item> \<open>run_chain\<close>: running the question-answering chain built over the index;
  \<^item> \<open>predict_messages\<close>: \<^verbatim>\<open>llm.predict_messages(messages).content\<close>;
  \<^item> \<open>ChatCompletion_stream\<close>: \<^verbatim>\<open>openai.ChatCompletion.create(..., stream=True)\<close>, a finite
    sequence of lines, any of which may instead raise;
  \<^item> \<open>ChatCompletion_create\<close>: the non-streaming call, reduced to the content of the
    first choice;
  \<^item> \<open>ObjectId\<close>: the constructor \<^verbatim>\<open>ObjectId(s)\<close>, which raises on a malformed string;
  \<^item> \<open>new_ObjectId\<close>: the \<^verbatim>\<open>inserted_id\<close> of \<^verbatim>\<open>insert_one\<close>, as a string;
  \<^item> \<open>utcnow\<close>: \<^verbatim>\<open>datetime.datetime.utcnow()\<close>.
\<close>

record env =
  chat_combine_template :: string
  from_template :: "string \<Rightarrow> error option"
  load_local :: "string \<Rightarrow> embeddings \<Rightarrow> error + docsearch"
  get_num_tokens :: "llm \<Rightarrow> string \<Rightarrow> nat"
  run_chain :: "chain \<Rightarrow> docsearch \<Rightarrow> string \<Rightarrow> error + string"
  predict_messages :: "llm \<Rightarrow> lc_message list \<Rightarrow> error + string"
  ChatCompletion_stream :: "message list \<Rightarrow> error + (error + delta) list"
  ChatCompletion_create :: "message list \<Rightarrow> error + string"
  ObjectId :: "string \<Rightarrow> error + string"
  new_ObjectId :: string
  utcnow :: string

section \<open>The history loop\<close>

text \<open>
  Both \<^verbatim>\<open>complete_stream\<close> (lines 217 to 223) and \<^verbatim>\<open>api_answer\<close> (lines 353 to 359)
  run the same loop body over the reversed history; they differ in the two messages
  appended for an included turn, the parameter \<open>mk\<close>, which in \<^verbatim>\<open>complete_stream\<close> builds
  two dictionaries and cannot fail.  The loop state is the pair of
  \<^verbatim>\<open>tokens_current_history\<close> and \<^verbatim>\<open>messages_combine\<close>.
\<close>

definition history_step ::
  "(string \<Rightarrow> string \<Rightarrow> 'm list) \<Rightarrow> (string \<Rightarrow> nat) \<Rightarrow> int \<Rightarrow> int \<times> 'm list \<Rightarrow> turn \<Rightarrow> int \<times> 'm list"
where
  "history_step mk num_tokens max_history st i =
     (case st of (tokens_current_history, messages_combine) \<Rightarrow>
        (case i ''prompt'' of
           None \<Rightarrow> (tokens_current_history, messages_combine)
         | Some p \<Rightarrow>
             (case i ''response'' of
                None \<Rightarrow> (tokens_current_history, messages_combine)
              | Some r \<Rightarrow>
                  (let tokens_batch = int (num_tokens p) + int (num_tokens r)
                   in if tokens_current_history + tokens_batch < max_history
                      then (tokens_current_history + tokens_batch, messages_combine @ mk p r)
                      else (tokens_current_history, messages_combine)))))"

definition history_loop ::
  "(string \<Rightarrow> string \<Rightarrow> 'm list) \<Rightarrow> (string \<Rightarrow> nat) \<Rightarrow> int \<Rightarrow> 'm list \<Rightarrow> turn list \<Rightarrow> 'm list"
where
  "history_loop mk num_tokens max_history messages_combine ts =
     snd (foldl (history_step mk num_tokens max_history) (0, messages_combine) ts)"

definition chat_messages :: "string \<Rightarrow> string \<Rightarrow> message list" where
  "chat_messages p r =
     [\<lparr>role = ''user'', content = p\<rparr>, \<lparr>role = ''system'', content = r\<rparr>]"

text \<open>
  In \<^verbatim>\<open>api_answer\<close> the two messages of an included turn are message prompt templates
  (lines 358 and 359): the prompt and then the response are parsed as format strings,
  and either parse may raise.  The loop of lines 353 to 359 therefore stops at the first
  included turn with a text that does not parse; the running total has been increased
  for that turn already.
\<close>

definition from_templates ::
  "(string \<Rightarrow> error option) \<Rightarrow> string \<Rightarrow> string \<Rightarrow> error + message_template list"
where
  "from_templates parse p r =
     (case parse p of
        Some e \<Rightarrow> Inl e
      | None \<Rightarrow>
          (case parse r of
             Some e \<Rightarrow> Inl e
           | None \<Rightarrow> Inr [HumanMessagePromptTemplate p, AIMessagePromptTemplate r]))"

fun template_loop ::
  "(string \<Rightarrow> error option) \<Rightarrow> (string \<Rightarrow> nat) \<Rightarrow> int \<Rightarrow> int \<times> message_template list
     \<Rightarrow> turn list \<Rightarrow> error + int \<times> message_template list"
where
  "template_loop parse num_tokens max_history st [] = Inr st"
| "template_loop parse num_tokens max_history st (i # rest) =
     (case st of (tokens_current_history, messages_combine) \<Rightarrow>
        (case i ''prompt'' of
           None \<Rightarrow> template_loop parse num_tokens max_history st rest
         | Some p \<Rightarrow>
             (case i ''response'' of
                None \<Rightarrow> template_loop parse num_tokens max_history st rest
              | Some r \<Rightarrow>
                  (let tokens_batch = int (num_tokens p) + int (num_tokens r)
                   in if tokens_current_history + tokens_batch < max_history
                      then (case from_templates parse p r of
                              Inl e \<Rightarrow> Inl e
                            | Inr pair \<Rightarrow>
                                template_loop parse num_tokens max_history
                                  (tokens_current_history + tokens_batch,
                                   messages_combine @ pair) rest)
                      else template_loop parse num_tokens max_history st rest))))"

section \<open>\<^verbatim>\<open>complete_stream\<close>\<close>

text \<open>
  The events yielded by the generator.  Each stands for one \<^verbatim>\<open>data:\<close> frame whose JSON
  payload has the shape named by the constructor: a source (document text and, when
  the metadata is non-empty, the metadata), an answer increment, the conversation
  identifier, and the end marker.
\<close>

datatype event =
    Source_event string "(string \<times> string) list option"
  | Answer_event string
  | Id_event string
  | End_event

text \<open>Lines 204 to 211: one event per document, and the entry logged for it.  A non-empty
  metadata dictionary without \<^verbatim>\<open>"title"\<close> raises before the document's event is yielded.\<close>

fun source_loop :: "document list \<Rightarrow> event list \<times> (error + source_doc list)" where
  "source_loop [] = ([], Inr [])"
| "source_loop (doc # docs) =
     (if metadata doc \<noteq> []
      then (case map_of (metadata doc) ''title'' of
              None \<Rightarrow> ([], Inl (KeyError ''title''))
            | Some t \<Rightarrow>
                (case source_loop docs of
                   (evs, Inl e) \<Rightarrow>
                     (Source_event (page_content doc) (Some (metadata doc)) # evs, Inl e)
                 | (evs, Inr logged) \<Rightarrow>
                     (Source_event (page_content doc) (Some (metadata doc)) # evs,
                      Inr (\<lparr>src_title = last (py_split ''/'' t), src_text = page_content doc\<rparr>
                           # logged))))
      else (case source_loop docs of
              (evs, Inl e) \<Rightarrow> (Source_event (page_content doc) None # evs, Inl e)
            | (evs, Inr logged) \<Rightarrow>
                (Source_event (page_content doc) None # evs,
                 Inr (\<lparr>src_title = page_content doc, src_text = page_content doc\<rparr>
                      # logged))))"

text \<open>Lines 200 to 202 and 213 to 224: the messages sent to the model, and the caller's
  history list as the block leaves it (\<^verbatim>\<open>chat_history.reverse()\<close> works in place).\<close>

definition stream_prompt ::
  "env \<Rightarrow> settings \<Rightarrow> llm \<Rightarrow> document list \<Rightarrow> turn list \<Rightarrow> string \<Rightarrow> turn list \<times> message list"
where
  "stream_prompt env st l docs chat_history question =
     (let docs_together = py_join [CHR 0x0A] (map page_content docs);
          p_chat_combine = py_replace ''{summaries}'' docs_together (chat_combine_template env);
          messages_combine = [\<lparr>role = ''system'', content = p_chat_combine\<rparr>]
      in if length chat_history > 1
         then (rev chat_history,
               history_loop chat_messages (get_num_tokens env l) (TOKENS_MAX_HISTORY st)
                 messages_combine (rev chat_history)
               @ [\<lparr>role = ''user'', content = question\<rparr>])
         else (chat_history, messages_combine @ [\<lparr>role = ''user'', content = question\<rparr>]))"

text \<open>Lines 227 to 233: one answer event per line whose delta has content; the text is
  accumulated in \<^verbatim>\<open>reponse_full\<close>.  A line that raises ends the loop.\<close>

fun answer_loop :: "(error + delta) list \<Rightarrow> event list \<times> string \<times> error option" where
  "answer_loop [] = ([], [], None)"
| "answer_loop (Inl e # rest) = ([], [], Some e)"
| "answer_loop (Inr No_content # rest) = answer_loop rest"
| "answer_loop (Inr (Content c) # rest) =
     (case answer_loop rest of
        (evs, full, r) \<Rightarrow> (Answer_event (py_str c) # evs, py_str c @ full, r))"

definition summary_instruction :: string where
  "summary_instruction =
     ''Summarise following conversation in no more than 3 words, respond ONLY with the summary, use the same language as the system''"

definition stream_messages_summary :: "string \<Rightarrow> string \<Rightarrow> message list" where
  "stream_messages_summary question reponse_full =
     [\<lparr>role = ''assistant'',
       content = summary_instruction @ '' '' @ [CHR 0x0A, CHR 0x0A] @ ''User: '' @ question
                 @ [CHR 0x0A, CHR 0x0A] @ ''AI: '' @ reponse_full\<rparr>,
      \<lparr>role = ''user'', content = summary_instruction\<rparr>]"

text \<open>Lines 235 to 259: the turn is pushed to the conversation named by the request, or a
  new conversation is created under a generated title.  The result is the identifier
  reported to the client together with the new contents of the collection.\<close>

definition stream_save ::
  "env \<Rightarrow> string \<Rightarrow> string \<Rightarrow> source_doc list \<Rightarrow> string option \<Rightarrow> store \<Rightarrow> error + string \<times> store"
where
  "stream_save env question reponse_full source_log_docs conversation_id db =
     (case conversation_id of
        Some cid \<Rightarrow>
          (case ObjectId env cid of
             Inl e \<Rightarrow> Inl e
           | Inr oid \<Rightarrow>
               Inr (cid, update_one_push db oid
                           \<lparr>prompt = question, response = reponse_full,
                            sources = source_log_docs\<rparr>))
      | None \<Rightarrow>
          (case ChatCompletion_create env (stream_messages_summary question reponse_full) of
             Inl e \<Rightarrow> Inl e
           | Inr title \<Rightarrow>
               Inr (new_ObjectId env,
                    insert_one db (new_ObjectId env)
                      \<lparr>user = ''local'', date = utcnow env, name = title,
                       queries = [\<lparr>prompt = question, response = reponse_full,
                                   sources = source_log_docs\<rparr>]\<rparr>)))"

text \<open>
  One full run of the generator: the events yielded, the exception that ended the run
  if any, the accumulated answer, and the caller's history list and the collection
  afterwards.
\<close>

record stream_run =
  yielded :: "event list"
  raised :: "error option"
  reponse_full :: string
  chat_history_after :: "turn list"
  store_after :: store

definition complete_stream ::
  "env \<Rightarrow> settings \<Rightarrow> string \<Rightarrow> docsearch \<Rightarrow> turn list \<Rightarrow> string option \<Rightarrow> store \<Rightarrow> stream_run"
where
  "complete_stream env st question docsearch chat_history conversation_id db =
     (let l = (if is_azure_configured st then AzureChatOpenAI else ChatOpenAI)
      in case docsearch question 2 of
        Inl e \<Rightarrow>
          \<lparr>yielded = [], raised = Some e, reponse_full = [],
           chat_history_after = chat_history, store_after = db\<rparr>
      | Inr docs \<Rightarrow>
          (case source_loop docs of
             (evs1, Inl e) \<Rightarrow>
               \<lparr>yielded = evs1, raised = Some e, reponse_full = [],
                chat_history_after = chat_history, store_after = db\<rparr>
           | (evs1, Inr source_log_docs) \<Rightarrow>
               (case stream_prompt env st l docs chat_history question of
                  (chat_history', messages_combine) \<Rightarrow>
                    (case ChatCompletion_stream env messages_combine of
                       Inl e \<Rightarrow>
                         \<lparr>yielded = evs1, raised = Some e, reponse_full = [],
                          chat_history_after = chat_history', store_after = db\<rparr>
                     | Inr completion \<Rightarrow>
                         (case answer_loop completion of
                            (evs2, full, Some e) \<Rightarrow>
                              \<lparr>yielded = evs1 @ evs2, raised = Some e, reponse_full = full,
                               chat_history_after = chat_history', store_after = db\<rparr>
                          | (evs2, full, None) \<Rightarrow>
                              (case stream_save env question full source_log_docs
                                      conversation_id db of
                                 Inl e \<Rightarrow>
                                   \<lparr>yielded = evs1 @ evs2, raised = Some e,
                                    reponse_full = full,
                                    chat_history_after = chat_history', store_after = db\<rparr>
                               | Inr (cid, db') \<Rightarrow>
                                   \<lparr>yielded = evs1 @ evs2 @ [Id_event cid, End_event],
                                    raised = None, reponse_full = full,
                                    chat_history_after = chat_history',
                                    store_after = db'\<rparr>))))))"

section \<open>\<^verbatim>\<open>api_answer\<close>\<close>

text \<open>
  The calls that \<^verbatim>\<open>api_answer\<close> makes to its collaborators, recorded in the order in
  which they are issued.
\<close>

datatype call =
    Load_index string
  | Chain_run
  | Similarity_search string nat
  | Predict_messages
  | Update_one string
  | Insert_one string

text \<open>\<^verbatim>\<open>get_docsearch\<close>: the index is loaded with the embeddings named by the settings; an
  unknown name leaves the local \<^verbatim>\<open>docsearch\<close> unbound at the \<^verbatim>\<open>return\<close>.\<close>

definition get_docsearch :: "env \<Rightarrow> settings \<Rightarrow> string \<Rightarrow> call list \<times> (error + docsearch)" where
  "get_docsearch env st vectorstore =
     (if EMBEDDINGS_NAME st = ''openai_text-embedding-ada-002''
      then ([Load_index vectorstore],
            load_local env vectorstore (OpenAIEmbeddings (is_azure_configured st)))
      else if EMBEDDINGS_NAME st = ''huggingface_sentence-transformers/all-mpnet-base-v2''
      then ([Load_index vectorstore], load_local env vectorstore HuggingFaceHubEmbeddings)
      else if EMBEDDINGS_NAME st = ''huggingface_hkunlp/instructor-large''
      then ([Load_index vectorstore], load_local env vectorstore HuggingFaceInstructEmbeddings)
      else if EMBEDDINGS_NAME st = ''cohere_medium''
      then ([Load_index vectorstore], load_local env vectorstore CohereEmbeddings)
      else ([], Inl (UnboundLocalError ''docsearch'')))"

text \<open>Lines 336 to 369: the model is selected; in the chat branch the prompt templates are
  assembled and a non-empty history is reversed in place.  The result is the model, the
  local \<^verbatim>\<open>p_chat_combine\<close> when it has been bound, and the caller's history list; or the
  exception raised, by the final \<^verbatim>\<open>else\<close> or by a template that does not parse.\<close>

definition select_llm ::
  "env \<Rightarrow> settings \<Rightarrow> turn list \<Rightarrow> error + llm \<times> message_template list option \<times> turn list"
where
  "select_llm env st history =
     (if LLM_NAME st = ''openai_chat''
      then (let l = (if is_azure_configured st then AzureChatOpenAI else ChatOpenAI);
                messages_combine = [SystemMessagePromptTemplate (chat_combine_template env)]
            in if history \<noteq> []
               then (case template_loop (from_template env) (get_num_tokens env l)
                            (TOKENS_MAX_HISTORY st) (0, messages_combine) (rev history) of
                       Inl e \<Rightarrow> Inl e
                     | Inr (tokens_current_history, messages_combine') \<Rightarrow>
                         Inr (l,
                              Some (messages_combine'
                                    @ [HumanMessagePromptTemplate ''{question}'']),
                              rev history))
               else Inr (l,
                         Some (messages_combine @ [HumanMessagePromptTemplate ''{question}'']),
                         history))
      else if LLM_NAME st = ''openai'' then Inr (OpenAI, None, history)
      else if SELF_HOSTED_MODEL st then Inr (HuggingFacePipeline, None, history)
      else if LLM_NAME st = ''cohere'' then Inr (Cohere, None, history)
      else Inl (ValueError ''unknown LLM model''))"

text \<open>The caller's history list when the selection block raises: the reversal of line 352
  comes before the loop, so in the chat branch a non-empty list has been reversed; the
  final \<^verbatim>\<open>else\<close> is reached without touching the list.\<close>

definition history_left :: "settings \<Rightarrow> turn list \<Rightarrow> turn list" where
  "history_left st history =
     (if LLM_NAME st = ''openai_chat'' \<and> history \<noteq> [] then rev history else history)"

text \<open>Lines 371 to 401: the chain is built and run.  Reading \<^verbatim>\<open>p_chat_combine\<close> while it is
  unbound raises before the chain exists.\<close>

definition run_qa ::
  "env \<Rightarrow> settings \<Rightarrow> llm \<Rightarrow> message_template list option \<Rightarrow> docsearch \<Rightarrow> string
     \<Rightarrow> call list \<times> (error + string)"
where
  "run_qa env st l p_chat_combine docsearch question =
     (if LLM_NAME st = ''openai_chat''
      then (case p_chat_combine of
              None \<Rightarrow> ([], Inl (UnboundLocalError ''p_chat_combine''))
            | Some p \<Rightarrow>
                ([Chain_run], run_chain env (ConversationalRetrievalChain l p) docsearch question))
      else if SELF_HOSTED_MODEL st
      then (case p_chat_combine of
              None \<Rightarrow> ([], Inl (UnboundLocalError ''p_chat_combine''))
            | Some p \<Rightarrow>
                ([Chain_run], run_chain env (ConversationalRetrievalChain l p) docsearch question))
      else ([Chain_run], run_chain env (VectorDBQA l) docsearch question))"

text \<open>Lines 406 to 412: the two-character sequence backslash, \<open>n\<close> becomes a newline, then
  the text is cut at the first \<^verbatim>\<open>SOURCES:\<close>; a failure of the cut is ignored.\<close>

definition format_answer :: "string \<Rightarrow> string" where
  "format_answer raw =
     (let a = py_replace [CHR 0x5C, CHR ''n''] [CHR 0x0A] raw
      in case py_index (py_split ''SOURCES:'' a) 0 of
           Inl e \<Rightarrow> a
         | Inr x \<Rightarrow> x)"

text \<open>Lines 415 to 420.\<close>

fun sources_doc :: "document list \<Rightarrow> error + source_doc list" where
  "sources_doc [] = Inr []"
| "sources_doc (doc # docs) =
     (if metadata doc \<noteq> []
      then (case map_of (metadata doc) ''title'' of
              None \<Rightarrow> Inl (KeyError ''title'')
            | Some t \<Rightarrow>
                (case sources_doc docs of
                   Inl e \<Rightarrow> Inl e
                 | Inr rest \<Rightarrow> Inr (\<lparr>src_title = t, src_text = page_content doc\<rparr> # rest)))
      else (case sources_doc docs of
              Inl e \<Rightarrow> Inl e
            | Inr rest \<Rightarrow>
                Inr (\<lparr>src_title = page_content doc, src_text = page_content doc\<rparr> # rest)))"

definition answer_messages_summary :: "string \<Rightarrow> string \<Rightarrow> lc_message list" where
  "answer_messages_summary question answer =
     [AIMessage (summary_instruction @ '' '' @ [CHR 0x0A, CHR 0x0A] @ ''User: '' @ question
                 @ [CHR 0x0A, CHR 0x0A] @ ''AI: '' @ answer),
      HumanMessage summary_instruction]"

text \<open>Lines 424 to 453.\<close>

definition answer_save ::
  "env \<Rightarrow> llm \<Rightarrow> string \<Rightarrow> string \<Rightarrow> source_doc list \<Rightarrow> string option \<Rightarrow> store
     \<Rightarrow> call list \<times> (error + string \<times> store)"
where
  "answer_save env l question answer srcs conversation_id db =
     (case conversation_id of
        Some cid \<Rightarrow>
          (case ObjectId env cid of
             Inl e \<Rightarrow> ([], Inl e)
           | Inr oid \<Rightarrow>
               ([Update_one oid],
                Inr (cid, update_one_push db oid
                            \<lparr>prompt = question, response = answer, sources = srcs\<rparr>)))
      | None \<Rightarrow>
          (case predict_messages env l (answer_messages_summary question answer) of
             Inl e \<Rightarrow> ([Predict_messages], Inl e)
           | Inr title \<Rightarrow>
               ([Predict_messages, Insert_one (new_ObjectId env)],
                Inr (new_ObjectId env,
                     insert_one db (new_ObjectId env)
                       \<lparr>user = ''local'', date = utcnow env, name = title,
                        queries = [\<lparr>prompt = question, response = answer,
                                    sources = srcs\<rparr>]\<rparr>))))"

text \<open>
  The JSON object returned on success, and one run of the handler.  \<open>result\<close> is \<open>Inl e\<close>
  when exception \<open>e\<close> was raised inside the \<^verbatim>\<open>try\<close> block, in which case the handler
  answers \<^verbatim>\<open>bad_request(500, str(e))\<close>.  The arguments \<open>question\<close> and \<open>history\<close> are the
  values of the request fields of these names; \<open>data\<close> holds the string-valued fields
  \<^verbatim>\<open>"active_docs"\<close> and \<^verbatim>\<open>"conversation_id"\<close> when the request has them.
\<close>

record api_result =
  answer :: string
  result_sources :: "source_doc list"
  result_conversation_id :: string

record api_run =
  result :: "error + api_result"
  calls :: "call list"
  history_after :: "turn list"
  api_store_after :: store

definition api_answer ::
  "env \<Rightarrow> settings \<Rightarrow> string \<Rightarrow> turn list \<Rightarrow> (string \<rightharpoonup> string) \<Rightarrow> store \<Rightarrow> api_run"
where
  "api_answer env st question history data db =
     (let conversation_id = data ''conversation_id''
      in case get_vectorstore data of
        Inl e \<Rightarrow>
          \<lparr>result = Inl e, calls = [], history_after = history, api_store_after = db\<rparr>
      | Inr vectorstore \<Rightarrow>
          (case get_docsearch env st vectorstore of
             (c1, Inl e) \<Rightarrow>
               \<lparr>result = Inl e, calls = c1, history_after = history, api_store_after = db\<rparr>
           | (c1, Inr docsearch) \<Rightarrow>
               (case select_llm env st history of
                  Inl e \<Rightarrow>
                    \<lparr>result = Inl e, calls = c1, history_after = history_left st history,
                     api_store_after = db\<rparr>
                | Inr (l, p_chat_combine, history') \<Rightarrow>
                    (case run_qa env st l p_chat_combine docsearch question of
                       (c2, Inl e) \<Rightarrow>
                         \<lparr>result = Inl e, calls = c1 @ c2, history_after = history',
                          api_store_after = db\<rparr>
                     | (c2, Inr raw) \<Rightarrow>
                         (case docsearch question 2 of
                            Inl e \<Rightarrow>
                              \<lparr>result = Inl e,
                               calls = c1 @ c2 @ [Similarity_search question 2],
                               history_after = history', api_store_after = db\<rparr>
                          | Inr found \<Rightarrow>
                              (case sources_doc found of
                                 Inl e \<Rightarrow>
                                   \<lparr>result = Inl e,
                                    calls = c1 @ c2 @ [Similarity_search question 2],
                                    history_after = history', api_store_after = db\<rparr>
                               | Inr srcs \<Rightarrow>
                                   (case answer_save env l question (format_answer raw) srcs
                                           conversation_id db of
                                      (c3, Inl e) \<Rightarrow>
                                        \<lparr>result = Inl e,
                                         calls = c1 @ c2 @ [Similarity_search question 2] @ c3,
                                         history_after = history', api_store_after = db\<rparr>
                                    | (c3, Inr (cid, db')) \<Rightarrow>
                                        \<lparr>result = Inr \<lparr>answer = format_answer raw,
                                                       result_sources = srcs,
                                                       result_conversation_id = cid\<rparr>,
                                         calls = c1 @ c2 @ [Similarity_search question 2] @ c3,
                                         history_after = history',
                                         api_store_after = db'\<rparr>)))))))"

section \<open>The budgeting policy, stated on its own\<close>

text \<open>
  The policy that the history loop is compared with.  \<open>complete_turns\<close> keeps the turns
  that carry both a prompt and a response, as pairs.  \<open>select_turns\<close> scans such pairs in
  the given order with a running total \<open>tot\<close>: a pair is kept when the total plus its
  cost stays strictly below \<open>mx\<close>, and then adds its cost to the total; a pair that does
  not fit is dropped and the scan goes on with the unchanged total.
\<close>

fun complete_turns :: "turn list \<Rightarrow> (string \<times> string) list" where
  "complete_turns [] = []"
| "complete_turns (t # ts) =
     (case t ''prompt'' of
        None \<Rightarrow> complete_turns ts
      | Some p \<Rightarrow>
          (case t ''response'' of
             None \<Rightarrow> complete_turns ts
           | Some r \<Rightarrow> (p, r) # complete_turns ts))"

definition turn_cost :: "(string \<Rightarrow> nat) \<Rightarrow> string \<times> string \<Rightarrow> int" where
  "turn_cost num_tokens pr = int (num_tokens (fst pr)) + int (num_tokens (snd pr))"

fun select_turns ::
  "(string \<Rightarrow> nat) \<Rightarrow> int \<Rightarrow> int \<Rightarrow> (string \<times> string) list \<Rightarrow> (string \<times> string) list"
where
  "select_turns num_tokens mx tot [] = []"
| "select_turns num_tokens mx tot (pr # prs) =
     (if tot + turn_cost num_tokens pr < mx
      then pr # select_turns num_tokens mx (tot + turn_cost num_tokens pr) prs
      else select_turns num_tokens mx tot prs)"

text \<open>The messages of a list of selected pairs, in the order of the list.\<close>

definition turn_messages :: "(string \<Rightarrow> string \<Rightarrow> 'm list) \<Rightarrow> (string \<times> string) list \<Rightarrow> 'm list" where
  "turn_messages mk prs = concat (map (\<lambda>pr. mk (fst pr) (snd pr)) prs)"

text \<open>The templates of a list of selected pairs, in the order of the list, and the first
  exception that parsing their texts raises, prompt before response, if any.\<close>

definition turn_templates :: "(string \<times> string) list \<Rightarrow> message_template list" where
  "turn_templates prs =
     concat (map (\<lambda>pr. [HumanMessagePromptTemplate (fst pr), AIMessagePromptTemplate (snd pr)]) prs)"

fun first_error :: "(string \<Rightarrow> error option) \<Rightarrow> (string \<times> string) list \<Rightarrow> error option" where
  "first_error parse [] = None"
| "first_error parse (pr # prs) =
     (case parse (fst pr) of
        Some e \<Rightarrow> Some e
      | None \<Rightarrow>
          (case parse (snd pr) of
             Some e \<Rightarrow> Some e
           | None \<Rightarrow> first_error parse prs))"

text \<open>The event yielded for a retrieved document, and the text increments of a
  completed stream.\<close>

definition source_event :: "document \<Rightarrow> event" where
  "source_event doc =
     Source_event (page_content doc) (if metadata doc \<noteq> [] then Some (metadata doc) else None)"

fun increments :: "(error + delta) list \<Rightarrow> string list" where
  "increments [] = []"
| "increments (Inl e # rest) = increments rest"
| "increments (Inr No_content # rest) = increments rest"
| "increments (Inr (Content c) # rest) = py_str c # increments rest"

text \<open>The turns that the policy selects from a history given in chronological order: the
  scan starts at the most recent turn.\<close>

definition budgeted :: "(string \<Rightarrow> nat) \<Rightarrow> int \<Rightarrow> turn list \<Rightarrow> (string \<times> string) list" where
  "budgeted num_tokens mx h = select_turns num_tokens mx 0 (complete_turns (rev h))"

section \<open>Concrete inputs\<close>

text \<open>
  A configuration, collaborators and requests on which the definitions are evaluated below.
  The token counter counts characters; the index returns two passages, the second with
  metadata; the streamed completion has a first line without content and then three
  increments.
\<close>

definition example_settings :: settings where
  "example_settings =
     \<lparr>LLM_NAME = ''openai_chat'', SELF_HOSTED_MODEL = False,
      EMBEDDINGS_NAME = ''openai_text-embedding-ada-002'',
      TOKENS_MAX_HISTORY = 150, is_azure_configured = False\<rparr>"

definition example_docs :: "document list" where
  "example_docs =
     [\<lparr>page_content = ''alpha'', metadata = []\<rparr>,
      \<lparr>page_content = ''beta'', metadata = [(''title'', ''docs/guide.md'')]\<rparr>]"

definition example_docsearch :: docsearch where
  "example_docsearch question k = Inr (take k example_docs)"

definition example_completion :: "(error + delta) list" where
  "example_completion =
     [Inr No_content, Inr (Content (Some ''The '')), Inr (Content (Some ''answer '')),
      Inr (Content (Some ''is 42.''))]"

text \<open>
  The brace structure of a Python format string, as the standard parser reads it: a
  doubled brace is a literal, an opening brace starts a field that runs to its matching
  closing brace, and a closing brace outside a field is an error.  The first argument is
  \<open>None\<close> in literal text and the number of braces open inside the field otherwise.
\<close>

fun parse_format :: "nat option \<Rightarrow> string \<Rightarrow> error option" where
  "parse_format None [] = None"
| "parse_format (Some d) [] =
     Some (ValueError (''expected '' @ [CHR 0x27] @ ''}'' @ [CHR 0x27] @ '' before end of string''))"
| "parse_format None (c # cs) =
     (if c = CHR ''{''
      then (case cs of
              [] \<Rightarrow> Some (ValueError (''Single '' @ [CHR 0x27] @ ''{'' @ [CHR 0x27]
                                       @ '' encountered in format string''))
            | c' # cs' \<Rightarrow>
                if c' = CHR ''{'' then parse_format None cs' else parse_format (Some 0) cs)
      else if c = CHR ''}''
      then (case cs of
              [] \<Rightarrow> Some (ValueError (''Single '' @ [CHR 0x27] @ ''}'' @ [CHR 0x27]
                                       @ '' encountered in format string''))
            | c' # cs' \<Rightarrow>
                if c' = CHR ''}'' then parse_format None cs'
                else Some (ValueError (''Single '' @ [CHR 0x27] @ ''}'' @ [CHR 0x27]
                                       @ '' encountered in format string'')))
      else parse_format None cs)"
| "parse_format (Some d) (c # cs) =
     (if c = CHR ''{'' then parse_format (Some (Suc d)) cs
      else if c = CHR ''}''
      then (case d of 0 \<Rightarrow> parse_format None cs | Suc d' \<Rightarrow> parse_format (Some d') cs)
      else parse_format (Some d) cs)"

definition example_env :: env where
  "example_env =
     \<lparr>chat_combine_template = ''Use this: {summaries}'',
      from_template = parse_format None,
      load_local = (\<lambda>path emb. Inr example_docsearch),
      get_num_tokens = (\<lambda>l s. length s),
      run_chain = (\<lambda>c d q. Inr ''It is 42.''),
      predict_messages = (\<lambda>l ms. Inr ''Life question''),
      ChatCompletion_stream = (\<lambda>ms. Inr example_completion),
      ChatCompletion_create = (\<lambda>ms. Inr ''Life question''),
      ObjectId = (\<lambda>s. if length s = 24 then Inr s else Inl (InvalidId s)),
      new_ObjectId = ''65a000000000000000000001'',
      utcnow = ''2023-09-01T00:00:00''\<rparr>"

text \<open>Collaborators whose model output carries a sources section.\<close>

definition example_env_sources :: env where
  "example_env_sources =
     example_env
       \<lparr>run_chain := (\<lambda>c d q. Inr (''It is 42.'' @ [CHR 0x5C, CHR ''n''] @ ''SOURCES: a.md'')),
        ChatCompletion_stream :=
          (\<lambda>ms. Inr [Inr (Content (Some ''It is 42.'')), Inr (Content (Some ''SOURCES: a.md''))])\<rparr>"

definition turn1 :: turn where
  "turn1 = [''prompt'' \<mapsto> ''p1'', ''response'' \<mapsto> ''r1'']"

definition turn2 :: turn where
  "turn2 = [''prompt'' \<mapsto> ''p2'', ''response'' \<mapsto> ''r2'']"

definition turn4 :: turn where
  "turn4 = [''prompt'' \<mapsto> ''a { b'', ''response'' \<mapsto> ''r4'']"

definition turn3 :: turn where
  "turn3 = [''prompt'' \<mapsto> ''a long prompt'', ''response'' \<mapsto> ''a long response'']"

section \<open>Properties of the string primitives\<close>

lemma py_split_not_Nil: "py_split sep s \<noteq> []"
  by (induction sep s rule: py_split.induct) (auto split: list.splits)

lemma py_index_0: "py_index (py_split sep s) 0 = Inr (hd (py_split sep s))"
  using py_split_not_Nil [of sep s] by (cases "py_split sep s") (simp_all add: py_index_def)

lemma split_default: "py_split ''/'' ''default'' = [''default'']"
  by simp

section \<open>The vector store resolver\<close>

text \<open>
  Claim C8, as the code has it.  The selectors \<^verbatim>\<open>"local/default"\<close> and \<^verbatim>\<open>"default"\<close> and
  an absent selector all resolve to the same path, \<^verbatim>\<open>application/\<close>.  There is no
  fallback to that path for a selector that cannot be resolved: a selector of scope
  \<^verbatim>\<open>local\<close> with a name other than \<^verbatim>\<open>default\<close> resolves to \<^verbatim>\<open>application/indexes/\<close>
  followed by the selector, and a selector of any other scope, the bare \<^verbatim>\<open>default\<close>
  apart, resolves to \<^verbatim>\<open>application/vectors/\<close> followed by the selector, without any
  check that such an index exists and without raising.
\<close>

theorem get_vectorstore_selectors:
  "get_vectorstore [''active_docs'' \<mapsto> ''local/default''] = Inr ''application/''
   \<and> get_vectorstore [''active_docs'' \<mapsto> ''default''] = Inr ''application/''
   \<and> get_vectorstore Map.empty = Inr ''application/''
   \<and> (\<forall>sel nm rest. py_split ''/'' sel = ''local'' # nm # rest \<and> nm \<noteq> ''default''
         \<longrightarrow> get_vectorstore [''active_docs'' \<mapsto> sel] = Inr (''application/indexes/'' @ sel))
   \<and> (\<forall>sel. hd (py_split ''/'' sel) \<noteq> ''local'' \<and> sel \<noteq> ''default''
         \<longrightarrow> get_vectorstore [''active_docs'' \<mapsto> sel] = Inr (''application/vectors/'' @ sel))"
proof (intro conjI allI impI)
  show "get_vectorstore [''active_docs'' \<mapsto> ''local/default''] = Inr ''application/''"
    by (simp add: get_vectorstore_def py_index_def os_path_join_def)
  show "get_vectorstore [''active_docs'' \<mapsto> ''default''] = Inr ''application/''"
    by (simp add: get_vectorstore_def py_index_def os_path_join_def)
  show "get_vectorstore Map.empty = Inr ''application/''"
    by (simp add: get_vectorstore_def os_path_join_def)
next
  fix sel nm rest
  assume h: "py_split ''/'' sel = ''local'' # nm # rest \<and> nm \<noteq> ''default''"
  then have "sel \<noteq> ''default''" using split_default by auto
  with h show "get_vectorstore [''active_docs'' \<mapsto> sel] = Inr (''application/indexes/'' @ sel)"
    by (simp add: get_vectorstore_def py_index_def os_path_join_def)
next
  fix sel
  assume h: "hd (py_split ''/'' sel) \<noteq> ''local'' \<and> sel \<noteq> ''default''"
  then show "get_vectorstore [''active_docs'' \<mapsto> sel] = Inr (''application/vectors/'' @ sel)"
    by (simp add: get_vectorstore_def py_index_0 os_path_join_def)
qed

theorem get_vectorstore_selectors_witness:
  "py_split ''/'' ''local/mydocs'' = ''local'' # ''mydocs'' # [] \<and> ''mydocs'' \<noteq> ''default''
   \<and> get_vectorstore [''active_docs'' \<mapsto> ''local/mydocs''] = Inr ''application/indexes/local/mydocs''
   \<and> hd (py_split ''/'' ''python/3.11'') \<noteq> ''local'' \<and> ''python/3.11'' \<noteq> ''default''
   \<and> get_vectorstore [''active_docs'' \<mapsto> ''python/3.11''] = Inr ''application/vectors/python/3.11''"
proof -
  have a: "py_split ''/'' ''local/mydocs'' = ''local'' # ''mydocs'' # [] \<and> ''mydocs'' \<noteq> ''default''"
    by simp
  have b: "hd (py_split ''/'' ''python/3.11'') \<noteq> ''local'' \<and> ''python/3.11'' \<noteq> ''default''"
    by simp
  from get_vectorstore_selectors have
    "get_vectorstore [''active_docs'' \<mapsto> ''local/mydocs''] = Inr (''application/indexes/'' @ ''local/mydocs'')"
    using a by blast
  moreover from get_vectorstore_selectors have
    "get_vectorstore [''active_docs'' \<mapsto> ''python/3.11''] = Inr (''application/vectors/'' @ ''python/3.11'')"
    using b by blast
  ultimately show ?thesis using a b by simp
qed

text \<open>
  The claim as written fails: the selector \<^verbatim>\<open>"local"\<close>, a scope without a name, raises
  \<^verbatim>\<open>IndexError\<close> at \<^verbatim>\<open>split("/")[1]\<close>, and a selector that names no known collection
  yields a path of its own, not the default path.
\<close>

theorem get_vectorstore_unresolvable_counterexample:
  "get_vectorstore [''active_docs'' \<mapsto> ''local''] = Inl IndexError
   \<and> get_vectorstore [''active_docs'' \<mapsto> ''nosuch/index''] = Inr ''application/vectors/nosuch/index''
   \<and> get_vectorstore Map.empty = Inr ''application/''"
  by (simp add: get_vectorstore_def py_index_def os_path_join_def)

section \<open>The history loop and the budgeting policy\<close>

lemma complete_turns_append:
  "complete_turns (xs @ ys) = complete_turns xs @ complete_turns ys"
  by (induction xs) (auto split: option.splits)

lemma complete_turns_rev: "complete_turns (rev ts) = rev (complete_turns ts)"
  by (induction ts) (auto simp: complete_turns_append split: option.splits)

lemma foldl_history_step:
  "foldl (history_step mk nt mx) (tot, msgs) ts =
     (tot + sum_list (map (turn_cost nt) (select_turns nt mx tot (complete_turns ts))),
      msgs @ turn_messages mk (select_turns nt mx tot (complete_turns ts)))"
proof (induction ts arbitrary: tot msgs)
  case Nil
  show ?case by (simp add: turn_messages_def)
next
  case (Cons t ts)
  show ?case
  proof (cases "t ''prompt''")
    case None
    then show ?thesis using Cons.IH [of tot msgs] by (simp add: history_step_def)
  next
    case (Some p)
    note p = this
    show ?thesis
    proof (cases "t ''response''")
      case None
      then show ?thesis using p Cons.IH [of tot msgs] by (simp add: history_step_def)
    next
      case (Some r)
      show ?thesis
      proof (cases "tot + turn_cost nt (p, r) < mx")
        case True
        then show ?thesis
          using p Some Cons.IH [of "tot + turn_cost nt (p, r)" "msgs @ mk p r"]
          by (simp add: history_step_def turn_cost_def turn_messages_def Let_def)
      next
        case False
        then show ?thesis
          using p Some Cons.IH [of tot msgs]
          by (simp add: history_step_def turn_cost_def Let_def)
      qed
    qed
  qed
qed

lemma history_loop_select:
  "history_loop mk nt mx msgs ts = msgs @ turn_messages mk (select_turns nt mx 0 (complete_turns ts))"
  by (simp add: history_loop_def foldl_history_step)

lemma select_turns_subseq: "subseq (select_turns nt mx tot prs) prs"
  by (induction prs arbitrary: tot) auto

lemma select_turns_bound:
  "select_turns nt mx tot prs \<noteq> [] \<Longrightarrow>
     tot + sum_list (map (turn_cost nt) (select_turns nt mx tot prs)) < mx"
proof (induction prs arbitrary: tot)
  case Nil
  then show ?case by simp
next
  case (Cons pr prs)
  show ?case
  proof (cases "tot + turn_cost nt pr < mx")
    case True
    show ?thesis
    proof (cases "select_turns nt mx (tot + turn_cost nt pr) prs = []")
      case True
      with \<open>tot + turn_cost nt pr < mx\<close> show ?thesis by simp
    next
      case False
      from Cons.IH [OF False] \<open>tot + turn_cost nt pr < mx\<close> show ?thesis
        by (simp add: add.assoc)
    qed
  next
    case False
    with Cons.prems have "select_turns nt mx tot prs \<noteq> []" by simp
    from Cons.IH [OF this] False show ?thesis by simp
  qed
qed

lemma select_turns_append:
  "select_turns nt mx tot (xs @ ys) =
     select_turns nt mx tot xs
     @ select_turns nt mx (tot + sum_list (map (turn_cost nt) (select_turns nt mx tot xs))) ys"
  by (induction xs arbitrary: tot) (auto simp: add.assoc)



lemma rev_short: "length (h::'a list) \<le> 1 \<Longrightarrow> rev h = h"
  by (cases h) auto

lemma template_loop_select:
  "template_loop parse nt mx (tot, msgs) ts =
     (case first_error parse (select_turns nt mx tot (complete_turns ts)) of
        Some e \<Rightarrow> Inl e
      | None \<Rightarrow>
          Inr (tot + sum_list (map (turn_cost nt) (select_turns nt mx tot (complete_turns ts))),
               msgs @ turn_templates (select_turns nt mx tot (complete_turns ts))))"
proof (induction ts arbitrary: tot msgs)
  case Nil
  show ?case by (simp add: turn_templates_def)
next
  case (Cons t ts)
  show ?case
  proof (cases "t ''prompt''")
    case None
    then show ?thesis using Cons.IH [of tot msgs] by (simp cong: option.case_cong)
  next
    case (Some p)
    note p = this
    show ?thesis
    proof (cases "t ''response''")
      case None
      then show ?thesis using p Cons.IH [of tot msgs] by (simp cong: option.case_cong)
    next
      case (Some r)
      note r = this
      show ?thesis
      proof (cases "tot + turn_cost nt (p, r) < mx")
        case False
        then show ?thesis
          using p r Cons.IH [of tot msgs] by (simp add: turn_cost_def Let_def cong: option.case_cong)
      next
        case True
        note fits = this
        show ?thesis
        proof (cases "parse p")
          case (Some e)
          with p r fits show ?thesis
            by (simp add: turn_cost_def Let_def from_templates_def)
        next
          case None
          note pp = this
          show ?thesis
          proof (cases "parse r")
            case (Some e)
            with p r fits pp show ?thesis
              by (simp add: turn_cost_def Let_def from_templates_def)
          next
            case None
            with p r fits pp
              Cons.IH [of "tot + turn_cost nt (p, r)"
                "msgs @ [HumanMessagePromptTemplate p, AIMessagePromptTemplate r]"]
            show ?thesis
              by (simp add: turn_cost_def Let_def from_templates_def turn_templates_def add.assoc
                  cong: option.case_cong)
          qed
        qed
      qed
    qed
  qed
qed

lemma select_llm_chat:
  assumes "LLM_NAME st = ''openai_chat''" and "h \<noteq> []"
  shows "select_llm env st h =
           (case first_error (from_template env)
                   (budgeted
                      (get_num_tokens env
                         (if is_azure_configured st then AzureChatOpenAI else ChatOpenAI))
                      (TOKENS_MAX_HISTORY st) h) of
              Some e \<Rightarrow> Inl e
            | None \<Rightarrow>
                Inr (if is_azure_configured st then AzureChatOpenAI else ChatOpenAI,
                     Some ([SystemMessagePromptTemplate (chat_combine_template env)]
                           @ turn_templates
                               (budgeted
                                  (get_num_tokens env
                                     (if is_azure_configured st then AzureChatOpenAI else ChatOpenAI))
                                  (TOKENS_MAX_HISTORY st) h)
                           @ [HumanMessagePromptTemplate ''{question}'']),
                     rev h))"
  using assms
  by (simp add: select_llm_def template_loop_select budgeted_def Let_def split: option.splits)

text \<open>
  Claim C1, as the code has it.  For a history of length greater than one the loop scans
  the turns most recent first with a running token total; a turn (one that carries both
  fields) is included only if the total plus its cost stays strictly below the maximum;
  an excluded turn does not stop the scan, the older turns are still tried against the
  unchanged total.  The included turns appear in the assembled prompt in the order of the
  scan, most recent first: nothing turns them back into chronological order.  In the chat
  branch of \<^verbatim>\<open>api_answer\<close> the same turns are selected, and the prompt and the response of
  each are parsed as format-string templates: when every text parses, the templates are
  assembled most recent first as well; otherwise the selection block raises the
  parser's exception for the first text, in the order of the scan, that does not parse.
\<close>

theorem history_budget_newest_first:
  assumes "length h > 1"
  shows "stream_prompt env st l docs h question =
           (rev h,
            [\<lparr>role = ''system'',
              content = py_replace ''{summaries}'' (py_join [CHR 0x0A] (map page_content docs))
                          (chat_combine_template env)\<rparr>]
            @ turn_messages chat_messages (budgeted (get_num_tokens env l) (TOKENS_MAX_HISTORY st) h)
            @ [\<lparr>role = ''user'', content = question\<rparr>])
         \<and> (LLM_NAME st = ''openai_chat'' \<longrightarrow>
              select_llm env st h =
                (case first_error (from_template env)
                        (budgeted
                           (get_num_tokens env
                              (if is_azure_configured st then AzureChatOpenAI else ChatOpenAI))
                           (TOKENS_MAX_HISTORY st) h) of
                   Some e \<Rightarrow> Inl e
                 | None \<Rightarrow>
                     Inr (if is_azure_configured st then AzureChatOpenAI else ChatOpenAI,
                          Some ([SystemMessagePromptTemplate (chat_combine_template env)]
                                @ turn_templates
                                    (budgeted
                                       (get_num_tokens env
                                          (if is_azure_configured st then AzureChatOpenAI
                                           else ChatOpenAI))
                                       (TOKENS_MAX_HISTORY st) h)
                                @ [HumanMessagePromptTemplate ''{question}'']),
                          rev h)))
         \<and> subseq (budgeted nt mx h) (rev (complete_turns h))
         \<and> (budgeted nt mx h \<noteq> [] \<longrightarrow> sum_list (map (turn_cost nt) (budgeted nt mx h)) < mx)
         \<and> (\<forall>newer pr older. rev (complete_turns h) = newer @ pr # older \<longrightarrow>
              budgeted nt mx h =
                select_turns nt mx 0 newer
                @ (if sum_list (map (turn_cost nt) (select_turns nt mx 0 newer)) + turn_cost nt pr < mx
                   then pr # select_turns nt mx
                               (sum_list (map (turn_cost nt) (select_turns nt mx 0 newer))
                                + turn_cost nt pr) older
                   else select_turns nt mx
                          (sum_list (map (turn_cost nt) (select_turns nt mx 0 newer))) older))"
proof (intro conjI impI allI)
  show "stream_prompt env st l docs h question =
           (rev h,
            [\<lparr>role = ''system'',
              content = py_replace ''{summaries}'' (py_join [CHR 0x0A] (map page_content docs))
                          (chat_combine_template env)\<rparr>]
            @ turn_messages chat_messages (budgeted (get_num_tokens env l) (TOKENS_MAX_HISTORY st) h)
            @ [\<lparr>role = ''user'', content = question\<rparr>])"
    using assms by (simp add: stream_prompt_def history_loop_select budgeted_def)
next
  assume chat: "LLM_NAME st = ''openai_chat''"
  from assms have "h \<noteq> []" by auto
  from select_llm_chat [OF chat this]
  show "select_llm env st h =
                (case first_error (from_template env)
                        (budgeted
                           (get_num_tokens env
                              (if is_azure_configured st then AzureChatOpenAI else ChatOpenAI))
                           (TOKENS_MAX_HISTORY st) h) of
                   Some e \<Rightarrow> Inl e
                 | None \<Rightarrow>
                     Inr (if is_azure_configured st then AzureChatOpenAI else ChatOpenAI,
                          Some ([SystemMessagePromptTemplate (chat_combine_template env)]
                                @ turn_templates
                                    (budgeted
                                       (get_num_tokens env
                                          (if is_azure_configured st then AzureChatOpenAI
                                           else ChatOpenAI))
                                       (TOKENS_MAX_HISTORY st) h)
                                @ [HumanMessagePromptTemplate ''{question}'']),
                          rev h))" .
next
  show "subseq (budgeted nt mx h) (rev (complete_turns h))"
    using select_turns_subseq [of nt mx 0 "complete_turns (rev h)"]
    by (simp add: budgeted_def complete_turns_rev)
next
  assume "budgeted nt mx h \<noteq> []"
  then show "sum_list (map (turn_cost nt) (budgeted nt mx h)) < mx"
    using select_turns_bound [of nt mx 0 "complete_turns (rev h)"]
    by (simp add: budgeted_def)
next
  fix newer pr older
  assume "rev (complete_turns h) = newer @ pr # older"
  then show "budgeted nt mx h =
                select_turns nt mx 0 newer
                @ (if sum_list (map (turn_cost nt) (select_turns nt mx 0 newer)) + turn_cost nt pr < mx
                   then pr # select_turns nt mx
                               (sum_list (map (turn_cost nt) (select_turns nt mx 0 newer))
                                + turn_cost nt pr) older
                   else select_turns nt mx
                          (sum_list (map (turn_cost nt) (select_turns nt mx 0 newer))) older)"
    by (simp add: budgeted_def complete_turns_rev select_turns_append)
qed

lemma example_budgeted_skip:
  "budgeted (\<lambda>s. length s) 10 [turn1, turn3, turn2] = [(''p2'', ''r2''), (''p1'', ''r1'')]"
  by (simp add: budgeted_def turn1_def turn2_def turn3_def turn_cost_def)

lemma example_complete_skip:
  "rev (complete_turns [turn1, turn3, turn2])
     = [(''p2'', ''r2'')] @ (''a long prompt'', ''a long response'') # [(''p1'', ''r1'')]"
  by (simp add: turn1_def turn2_def turn3_def)

theorem history_budget_newest_first_witness:
  "length [turn1, turn3, turn2] > 1
   \<and> LLM_NAME (example_settings\<lparr>TOKENS_MAX_HISTORY := 10\<rparr>) = ''openai_chat''
   \<and> snd (stream_prompt example_env (example_settings\<lparr>TOKENS_MAX_HISTORY := 10\<rparr>) ChatOpenAI
             example_docs [turn1, turn3, turn2] ''q'')
       = [\<lparr>role = ''system'', content = ''Use this: alpha'' @ [CHR 0x0A] @ ''beta''\<rparr>,
          \<lparr>role = ''user'', content = ''p2''\<rparr>, \<lparr>role = ''system'', content = ''r2''\<rparr>,
          \<lparr>role = ''user'', content = ''p1''\<rparr>, \<lparr>role = ''system'', content = ''r1''\<rparr>,
          \<lparr>role = ''user'', content = ''q''\<rparr>]
   \<and> select_llm example_env (example_settings\<lparr>TOKENS_MAX_HISTORY := 10\<rparr>) [turn1, turn3, turn2]
       = Inr (ChatOpenAI,
              Some [SystemMessagePromptTemplate ''Use this: {summaries}'',
                    HumanMessagePromptTemplate ''p2'', AIMessagePromptTemplate ''r2'',
                    HumanMessagePromptTemplate ''p1'', AIMessagePromptTemplate ''r1'',
                    HumanMessagePromptTemplate ''{question}''],
              [turn2, turn3, turn1])
   \<and> budgeted (\<lambda>s. length s) 10 [turn1, turn3, turn2] \<noteq> []
   \<and> sum_list (map (turn_cost (\<lambda>s. length s)) (budgeted (\<lambda>s. length s) 10 [turn1, turn3, turn2])) < 10
   \<and> rev (complete_turns [turn1, turn3, turn2])
       = [(''p2'', ''r2'')] @ (''a long prompt'', ''a long response'') # [(''p1'', ''r1'')]
   \<and> budgeted (\<lambda>s. length s) 10 [turn1, turn3, turn2] = [(''p2'', ''r2''), (''p1'', ''r1'')]
   \<and> length [turn1, turn4] > 1
   \<and> select_llm example_env example_settings [turn1, turn4]
       = Inl (ValueError (''expected '' @ [CHR 0x27] @ ''}'' @ [CHR 0x27] @ '' before end of string''))"
proof -
  let ?st = "example_settings\<lparr>TOKENS_MAX_HISTORY := 10\<rparr>"
  let ?h = "[turn1, turn3, turn2]"
  have len: "length ?h > 1" by simp
  have chat: "LLM_NAME ?st = ''openai_chat''" by (simp add: example_settings_def)
  have ne: "budgeted (\<lambda>s. length s) 10 ?h \<noteq> []" by (simp add: example_budgeted_skip)
  note t = history_budget_newest_first [OF len, of example_env ?st ChatOpenAI
      example_docs "''q''" "\<lambda>s. length s" 10]
  from t have a: "snd (stream_prompt example_env ?st ChatOpenAI example_docs ?h ''q'')
       = [\<lparr>role = ''system'', content = ''Use this: alpha'' @ [CHR 0x0A] @ ''beta''\<rparr>,
          \<lparr>role = ''user'', content = ''p2''\<rparr>, \<lparr>role = ''system'', content = ''r2''\<rparr>,
          \<lparr>role = ''user'', content = ''p1''\<rparr>, \<lparr>role = ''system'', content = ''r1''\<rparr>,
          \<lparr>role = ''user'', content = ''q''\<rparr>]"
    by (simp add: example_env_def example_settings_def example_docs_def example_budgeted_skip
        turn_messages_def chat_messages_def)
  from t chat have b: "select_llm example_env ?st ?h
       = Inr (ChatOpenAI,
              Some [SystemMessagePromptTemplate ''Use this: {summaries}'',
                    HumanMessagePromptTemplate ''p2'', AIMessagePromptTemplate ''r2'',
                    HumanMessagePromptTemplate ''p1'', AIMessagePromptTemplate ''r1'',
                    HumanMessagePromptTemplate ''{question}''],
              [turn2, turn3, turn1])"
    by (simp add: example_env_def example_settings_def example_budgeted_skip
        turn_templates_def)
  from t ne have c: "sum_list (map (turn_cost (\<lambda>s. length s)) (budgeted (\<lambda>s. length s) 10 ?h)) < 10"
    by blast
  from t example_complete_skip
  have "budgeted (\<lambda>s. length s) 10 ?h =
          select_turns (\<lambda>s. length s) 10 0 [(''p2'', ''r2'')]
          @ (if sum_list (map (turn_cost (\<lambda>s. length s)) (select_turns (\<lambda>s. length s) 10 0 [(''p2'', ''r2'')]))
                + turn_cost (\<lambda>s. length s) (''a long prompt'', ''a long response'') < 10
             then (''a long prompt'', ''a long response'')
                  # select_turns (\<lambda>s. length s) 10
                      (sum_list (map (turn_cost (\<lambda>s. length s)) (select_turns (\<lambda>s. length s) 10 0 [(''p2'', ''r2'')]))
                       + turn_cost (\<lambda>s. length s) (''a long prompt'', ''a long response''))
                      [(''p1'', ''r1'')]
             else select_turns (\<lambda>s. length s) 10
                    (sum_list (map (turn_cost (\<lambda>s. length s)) (select_turns (\<lambda>s. length s) 10 0 [(''p2'', ''r2'')])))
                    [(''p1'', ''r1'')])"
    by blast
  then have d: "budgeted (\<lambda>s. length s) 10 ?h = [(''p2'', ''r2''), (''p1'', ''r1'')]"
    by (simp add: turn_cost_def)
  have len4: "length [turn1, turn4] > 1" by simp
  have chat4: "LLM_NAME example_settings = ''openai_chat''" by (simp add: example_settings_def)
  have b4: "budgeted (\<lambda>s. length s) 150 [turn1, turn4] = [(''a { b'', ''r4''), (''p1'', ''r1'')]"
    by (simp add: budgeted_def turn1_def turn4_def turn_cost_def)
  note t4 = history_budget_newest_first [OF len4, of example_env example_settings ChatOpenAI
      example_docs "''q''" "\<lambda>s. length s" 150]
  from t4 chat4 have e: "select_llm example_env example_settings [turn1, turn4]
       = Inl (ValueError (''expected '' @ [CHR 0x27] @ ''}'' @ [CHR 0x27] @ '' before end of string''))"
    by (simp add: example_env_def example_settings_def b4)
  show ?thesis using len chat a b ne c example_complete_skip d len4 e by blast
qed

text \<open>
  The claim as written fails in its last part: with two turns that both fit, the prompt
  holds the second turn before the first, not the oldest first.
\<close>

theorem history_order_counterexample:
  "snd (stream_prompt example_env example_settings ChatOpenAI example_docs [turn1, turn2] ''q'')
     \<noteq> [\<lparr>role = ''system'', content = ''Use this: alpha'' @ [CHR 0x0A] @ ''beta''\<rparr>,
         \<lparr>role = ''user'', content = ''p1''\<rparr>, \<lparr>role = ''system'', content = ''r1''\<rparr>,
         \<lparr>role = ''user'', content = ''p2''\<rparr>, \<lparr>role = ''system'', content = ''r2''\<rparr>,
         \<lparr>role = ''user'', content = ''q''\<rparr>]
   \<and> map content (snd (stream_prompt example_env example_settings ChatOpenAI example_docs
                          [turn1, turn2] ''q''))
       = [''Use this: alpha'' @ [CHR 0x0A] @ ''beta'', ''p2'', ''r2'', ''p1'', ''r1'', ''q'']"
  by (simp add: stream_prompt_def history_loop_def history_step_def chat_messages_def
      example_env_def example_settings_def example_docs_def turn1_def turn2_def)

section \<open>Short histories\<close>

text \<open>
  Claim C7, as the code has it.  For a history of length 0 or 1 \<^verbatim>\<open>complete_stream\<close>
  leaves the list untouched, evaluates no budget and puts no history turn into the
  prompt: the messages are the system message and the question.  In the chat branch of
  \<^verbatim>\<open>api_answer\<close> the list is unchanged as well, but the guard there is non-emptiness: a
  single turn goes through the budget and is selected exactly when it carries both
  fields and its cost is strictly below the maximum.  A selected turn is included when
  its prompt and its response parse as format-string templates; when one of them does
  not, the selection block raises the parser's exception.
\<close>

theorem short_history_prompt:
  assumes "length h \<le> 1"
  shows "stream_prompt env st l docs h question =
           (h,
            [\<lparr>role = ''system'',
              content = py_replace ''{summaries}'' (py_join [CHR 0x0A] (map page_content docs))
                          (chat_combine_template env)\<rparr>,
             \<lparr>role = ''user'', content = question\<rparr>])
         \<and> (LLM_NAME st = ''openai_chat'' \<longrightarrow>
              select_llm env st h =
                (case first_error (from_template env)
                        (select_turns
                           (get_num_tokens env
                              (if is_azure_configured st then AzureChatOpenAI else ChatOpenAI))
                           (TOKENS_MAX_HISTORY st) 0 (complete_turns h)) of
                   Some e \<Rightarrow> Inl e
                 | None \<Rightarrow>
                     Inr (if is_azure_configured st then AzureChatOpenAI else ChatOpenAI,
                          Some ([SystemMessagePromptTemplate (chat_combine_template env)]
                                @ turn_templates
                                    (select_turns
                                       (get_num_tokens env
                                          (if is_azure_configured st then AzureChatOpenAI
                                           else ChatOpenAI))
                                       (TOKENS_MAX_HISTORY st) 0 (complete_turns h))
                                @ [HumanMessagePromptTemplate ''{question}'']),
                          h)))"
proof (intro conjI impI)
  show "stream_prompt env st l docs h question =
           (h,
            [\<lparr>role = ''system'',
              content = py_replace ''{summaries}'' (py_join [CHR 0x0A] (map page_content docs))
                          (chat_combine_template env)\<rparr>,
             \<lparr>role = ''user'', content = question\<rparr>])"
    using assms by (simp add: stream_prompt_def)
next
  assume chat: "LLM_NAME st = ''openai_chat''"
  from assms have r: "rev h = h" by (rule rev_short)
  show "select_llm env st h =
                (case first_error (from_template env)
                        (select_turns
                           (get_num_tokens env
                              (if is_azure_configured st then AzureChatOpenAI else ChatOpenAI))
                           (TOKENS_MAX_HISTORY st) 0 (complete_turns h)) of
                   Some e \<Rightarrow> Inl e
                 | None \<Rightarrow>
                     Inr (if is_azure_configured st then AzureChatOpenAI else ChatOpenAI,
                          Some ([SystemMessagePromptTemplate (chat_combine_template env)]
                                @ turn_templates
                                    (select_turns
                                       (get_num_tokens env
                                          (if is_azure_configured st then AzureChatOpenAI
                                           else ChatOpenAI))
                                       (TOKENS_MAX_HISTORY st) 0 (complete_turns h))
                                @ [HumanMessagePromptTemplate ''{question}'']),
                          h))"
  proof (cases "h = []")
    case True
    with chat show ?thesis by (simp add: select_llm_def turn_templates_def)
  next
    case False
    from select_llm_chat [OF chat False, of env, unfolded budgeted_def r] show ?thesis .
  qed
qed

theorem short_history_prompt_witness:
  "length [turn1] \<le> 1 \<and> LLM_NAME example_settings = ''openai_chat''
   \<and> stream_prompt example_env example_settings ChatOpenAI example_docs [turn1] ''q''
       = ([turn1],
          [\<lparr>role = ''system'', content = ''Use this: alpha'' @ [CHR 0x0A] @ ''beta''\<rparr>,
           \<lparr>role = ''user'', content = ''q''\<rparr>])
   \<and> select_llm example_env example_settings [turn1]
       = Inr (ChatOpenAI,
              Some [SystemMessagePromptTemplate ''Use this: {summaries}'',
                    HumanMessagePromptTemplate ''p1'', AIMessagePromptTemplate ''r1'',
                    HumanMessagePromptTemplate ''{question}''],
              [turn1])
   \<and> length [turn4] \<le> 1
   \<and> select_llm example_env example_settings [turn4]
       = Inl (ValueError (''expected '' @ [CHR 0x27] @ ''}'' @ [CHR 0x27] @ '' before end of string''))"
proof -
  have len: "length [turn1] \<le> 1" by simp
  have len4: "length [turn4] \<le> 1" by simp
  have chat: "LLM_NAME example_settings = ''openai_chat''" by (simp add: example_settings_def)
  note t = short_history_prompt [OF len, of example_env example_settings
      ChatOpenAI example_docs "''q''"]
  note t4 = short_history_prompt [OF len4, of example_env example_settings
      ChatOpenAI example_docs "''q''"]
  from t have a: "stream_prompt example_env example_settings ChatOpenAI example_docs [turn1] ''q''
       = ([turn1],
          [\<lparr>role = ''system'', content = ''Use this: alpha'' @ [CHR 0x0A] @ ''beta''\<rparr>,
           \<lparr>role = ''user'', content = ''q''\<rparr>])"
    by (simp add: example_env_def example_docs_def)
  from t chat have b: "select_llm example_env example_settings [turn1]
       = Inr (ChatOpenAI,
              Some [SystemMessagePromptTemplate ''Use this: {summaries}'',
                    HumanMessagePromptTemplate ''p1'', AIMessagePromptTemplate ''r1'',
                    HumanMessagePromptTemplate ''{question}''],
              [turn1])"
    by (simp add: example_env_def example_settings_def turn1_def turn_cost_def turn_templates_def)
  from t4 chat have c: "select_llm example_env example_settings [turn4]
       = Inl (ValueError (''expected '' @ [CHR 0x27] @ ''}'' @ [CHR 0x27] @ '' before end of string''))"
    by (simp add: example_env_def example_settings_def turn4_def turn_cost_def)
  show ?thesis using len chat a b len4 c by blast
qed

text \<open>
  The claim as written fails: \<^verbatim>\<open>complete_stream\<close> drops a single turn from the prompt,
  and \<^verbatim>\<open>api_answer\<close> evaluates the budget on a single turn and excludes it when its cost
  reaches the maximum.
\<close>

theorem single_turn_counterexample:
  "snd (stream_prompt example_env example_settings ChatOpenAI example_docs [turn1] ''q'')
     = [\<lparr>role = ''system'', content = ''Use this: alpha'' @ [CHR 0x0A] @ ''beta''\<rparr>,
        \<lparr>role = ''user'', content = ''q''\<rparr>]
   \<and> select_llm example_env (example_settings\<lparr>TOKENS_MAX_HISTORY := 4\<rparr>) [turn1]
       = Inr (ChatOpenAI,
              Some [SystemMessagePromptTemplate ''Use this: {summaries}'',
                    HumanMessagePromptTemplate ''{question}''],
              [turn1])"
  by (simp add: stream_prompt_def select_llm_def history_loop_def history_step_def
      example_env_def example_settings_def example_docs_def turn1_def)

section \<open>Turns without both fields\<close>

text \<open>The loop of \<^verbatim>\<open>api_answer\<close> skips a turn that lacks a field in the same way.\<close>

lemma template_loop_skip:
  "t ''prompt'' = None \<or> t ''response'' = None \<Longrightarrow>
     template_loop parse nt mx (tot, msgs) (t # ts) = template_loop parse nt mx (tot, msgs) ts"
  by (auto split: option.splits)





section \<open>The caller's history list\<close>

lemma stream_history_after:
  "docsearch question 2 = Inr docs \<Longrightarrow> snd (source_loop docs) = Inr logged \<Longrightarrow>
     chat_history_after (complete_stream env st question docsearch h cid db)
       = fst (stream_prompt env st (if is_azure_configured st then AzureChatOpenAI else ChatOpenAI)
                docs h question)"
  by (cases "source_loop docs")
     (simp add: complete_stream_def Let_def split: sum.splits prod.splits option.splits)

lemma api_history_after:
  "get_vectorstore data = Inr v \<Longrightarrow> snd (get_docsearch env st v) = Inr d \<Longrightarrow>
     select_llm env st h = Inr (l, p, h') \<Longrightarrow>
     history_after (api_answer env st question h data db) = h'"
  by (cases "get_docsearch env st v")
     (simp add: api_answer_def Let_def split: sum.splits prod.splits option.splits)

lemma api_history_after_raise:
  "get_vectorstore data = Inr v \<Longrightarrow> snd (get_docsearch env st v) = Inr d \<Longrightarrow>
     select_llm env st h = Inl e \<Longrightarrow>
     history_after (api_answer env st question h data db) = history_left st h"
  by (cases "get_docsearch env st v") (simp add: api_answer_def)

text \<open>
  Claim C10.  When the history has length greater than one, the budgeting step reverses
  the caller's list in place: after \<^verbatim>\<open>complete_stream\<close> has reached the step (the
  retrieval and the source events succeeded), and after \<^verbatim>\<open>api_answer\<close> has reached it (the
  index was loaded and the chat model is selected, the only branch with a budgeting
  step), the caller's list is the reverse of the list supplied.
\<close>

theorem history_reversed_in_place:
  assumes "length h > 1"
  shows "fst (stream_prompt env st l docs h question) = rev h
         \<and> (docsearch question 2 = Inr docs \<and> snd (source_loop docs) = Inr logged \<longrightarrow>
              chat_history_after (complete_stream env st question docsearch h cid db) = rev h)
         \<and> (LLM_NAME st = ''openai_chat'' \<and> get_vectorstore data = Inr v
              \<and> snd (get_docsearch env st v) = Inr d \<longrightarrow>
              history_after (api_answer env st question h data db) = rev h)"
proof (intro conjI impI)
  show a: "fst (stream_prompt env st l docs h question) = rev h" for l
    using assms by (simp add: stream_prompt_def)
  {
    assume "docsearch question 2 = Inr docs \<and> snd (source_loop docs) = Inr logged"
    then show "chat_history_after (complete_stream env st question docsearch h cid db) = rev h"
      using stream_history_after [of docsearch question docs logged env st h cid db] a by simp
  }
  {
    assume c: "LLM_NAME st = ''openai_chat'' \<and> get_vectorstore data = Inr v
              \<and> snd (get_docsearch env st v) = Inr d"
    from assms have "h \<noteq> []" by auto
    with c have left: "history_left st h = rev h" by (simp add: history_left_def)
    show "history_after (api_answer env st question h data db) = rev h"
    proof (cases "select_llm env st h")
      case (Inl e)
      with c api_history_after_raise [of data v env st d h e question db] left
      show ?thesis by simp
    next
      case (Inr lph)
      obtain l p h' where lph: "lph = (l, p, h')" by (cases lph)
      from Inr lph c \<open>h \<noteq> []\<close> have "h' = rev h"
        by (auto simp: select_llm_def Let_def split: sum.splits prod.splits)
      with Inr lph c api_history_after [of data v env st d h l p h' question db]
      show ?thesis by simp
    qed
  }
qed

lemma example_source_loop:
  "snd (source_loop example_docs)
     = Inr [\<lparr>src_title = ''alpha'', src_text = ''alpha''\<rparr>,
            \<lparr>src_title = ''guide.md'', src_text = ''beta''\<rparr>]"
  by (simp add: example_docs_def)

lemma example_vectorstore: "get_vectorstore Map.empty = Inr ''application/''"
  by (simp add: get_vectorstore_def os_path_join_def)

lemma example_get_docsearch:
  "get_docsearch example_env example_settings ''application/''
     = ([Load_index ''application/''], Inr example_docsearch)"
  by (simp add: get_docsearch_def example_env_def example_settings_def)

theorem history_reversed_in_place_witness:
  "length [turn1, turn2] > 1
   \<and> example_docsearch ''q'' 2 = Inr example_docs
   \<and> snd (source_loop example_docs)
       = Inr [\<lparr>src_title = ''alpha'', src_text = ''alpha''\<rparr>,
              \<lparr>src_title = ''guide.md'', src_text = ''beta''\<rparr>]
   \<and> chat_history_after
        (complete_stream example_env example_settings ''q'' example_docsearch [turn1, turn2]
           None Map.empty) = [turn2, turn1]
   \<and> LLM_NAME example_settings = ''openai_chat''
   \<and> get_vectorstore Map.empty = Inr ''application/''
   \<and> snd (get_docsearch example_env example_settings ''application/'') = Inr example_docsearch
   \<and> history_after (api_answer example_env example_settings ''q'' [turn1, turn2] Map.empty Map.empty)
       = [turn2, turn1]"
proof -
  have len: "length [turn1, turn2] > 1" by simp
  have ds: "example_docsearch ''q'' 2 = Inr example_docs"
    by (simp add: example_docsearch_def example_docs_def)
  have chat: "LLM_NAME example_settings = ''openai_chat''" by (simp add: example_settings_def)
  have gd: "snd (get_docsearch example_env example_settings ''application/'') = Inr example_docsearch"
    by (simp add: example_get_docsearch)
  note t = history_reversed_in_place [OF len, of example_env example_settings ChatOpenAI
      example_docs "''q''" example_docsearch
      "[\<lparr>src_title = ''alpha'', src_text = ''alpha''\<rparr>, \<lparr>src_title = ''guide.md'', src_text = ''beta''\<rparr>]"
      None Map.empty Map.empty "''application/''" example_docsearch]
  from t ds example_source_loop have a: "chat_history_after
        (complete_stream example_env example_settings ''q'' example_docsearch [turn1, turn2]
           None Map.empty) = [turn2, turn1]"
    by simp
  from t chat example_vectorstore gd have b:
    "history_after (api_answer example_env example_settings ''q'' [turn1, turn2] Map.empty Map.empty)
       = [turn2, turn1]"
    by simp
  show ?thesis using len ds example_source_loop a chat example_vectorstore gd b by blast
qed

section \<open>Roles of the history messages\<close>

lemma history_loop_roles:
  "\<forall>m \<in> set msgs. role m \<noteq> ''assistant'' \<Longrightarrow>
     \<forall>m \<in> set (history_loop chat_messages nt mx msgs ts). role m \<noteq> ''assistant''"
  by (auto simp: history_loop_select turn_messages_def chat_messages_def)

text \<open>No message that \<^verbatim>\<open>complete_stream\<close> sends to the model is tagged \<^verbatim>\<open>assistant\<close>.\<close>

lemma stream_prompt_never_assistant:
  "\<forall>m \<in> set (snd (stream_prompt env st l docs h question)). role m \<noteq> ''assistant''"
proof -
  have "\<forall>m \<in> set (history_loop chat_messages nt mx [\<lparr>role = ''system'', content = c\<rparr>] ts).
          role m \<noteq> ''assistant''" for nt mx c ts
    by (rule history_loop_roles) simp
  then show ?thesis by (auto simp: stream_prompt_def Let_def)
qed

text \<open>
  Claim C6 at a streaming request with two turns of history.  The system message carries
  the template with the passages joined by newlines, and the last message is the
  question, but each response of the history is tagged \<^verbatim>\<open>system\<close>, not \<^verbatim>\<open>assistant\<close>;
  \<^verbatim>\<open>api_answer\<close> builds the same pairs as human and AI messages.
\<close>

theorem stream_history_roles:
  "snd (stream_prompt example_env example_settings ChatOpenAI example_docs [turn1, turn2] ''q'')
     = [\<lparr>role = ''system'', content = ''Use this: alpha'' @ [CHR 0x0A] @ ''beta''\<rparr>,
        \<lparr>role = ''user'', content = ''p2''\<rparr>, \<lparr>role = ''system'', content = ''r2''\<rparr>,
        \<lparr>role = ''user'', content = ''p1''\<rparr>, \<lparr>role = ''system'', content = ''r1''\<rparr>,
        \<lparr>role = ''user'', content = ''q''\<rparr>]
   \<and> select_llm example_env example_settings [turn1, turn2]
       = Inr (ChatOpenAI,
              Some [SystemMessagePromptTemplate ''Use this: {summaries}'',
                    HumanMessagePromptTemplate ''p2'', AIMessagePromptTemplate ''r2'',
                    HumanMessagePromptTemplate ''p1'', AIMessagePromptTemplate ''r1'',
                    HumanMessagePromptTemplate ''{question}''],
              [turn2, turn1])"
  by (simp add: stream_prompt_def select_llm_def history_loop_def history_step_def
      chat_messages_def from_templates_def example_env_def example_settings_def
      example_docs_def turn1_def turn2_def)

section \<open>The event sequence of a streaming answer\<close>

lemma source_loop_events:
  "snd (source_loop docs) = Inr logged \<Longrightarrow> fst (source_loop docs) = map source_event docs"
proof (induction docs arbitrary: logged)
  case Nil
  show ?case by simp
next
  case (Cons doc docs)
  obtain evs r where sl: "source_loop docs = (evs, r)" by (cases "source_loop docs")
  from Cons.prems sl obtain rest where r: "r = Inr rest"
    by (cases r) (auto split: if_splits option.splits)
  from Cons.IH [of rest] sl r have evs: "evs = map source_event docs" by simp
  from Cons.prems sl r evs show ?case
    by (auto simp: source_event_def split: if_splits option.splits)
qed

lemma answer_loop_events:
  "answer_loop ls = (evs, full, None) \<Longrightarrow>
     evs = map Answer_event (increments ls) \<and> full = concat (increments ls)
     \<and> (\<forall>e. Inl e \<notin> set ls)"
proof (induction ls arbitrary: evs full rule: answer_loop.induct)
  case 1
  then show ?case by simp
next
  case (2 e rest)
  then show ?case by simp
next
  case (3 rest)
  then show ?case by simp
next
  case (4 c rest)
  obtain evs' full' r where al: "answer_loop rest = (evs', full', r)"
    by (cases "answer_loop rest")
  with "4.prems" have r: "r = None" and e: "evs = Answer_event (py_str c) # evs'"
    and f: "full = py_str c @ full'" by auto
  from "4.IH" [of evs' full'] al r
  have "evs' = map Answer_event (increments rest) \<and> full' = concat (increments rest)
     \<and> (\<forall>e. Inl e \<notin> set rest)" by simp
  with e f show ?case by simp
qed

text \<open>
  Claim C2.  When a run of \<^verbatim>\<open>complete_stream\<close> ends without an exception, the retrieval
  returned some passages and the completion some lines, none of which raised, and the
  events yielded are exactly: one source event per passage in retrieval order, then one
  answer event per text increment in generation order, then one id event carrying the
  conversation identifier (the one of the request, or the newly generated one), then one
  end event.  The increments concatenate to the accumulated answer.
\<close>

theorem stream_events_in_order:
  assumes "raised (complete_stream env st question docsearch h cid db) = None"
  shows "\<exists>docs ls.
           docsearch question 2 = Inr docs
         \<and> ChatCompletion_stream env
             (snd (stream_prompt env st
                     (if is_azure_configured st then AzureChatOpenAI else ChatOpenAI)
                     docs h question)) = Inr ls
         \<and> (\<forall>e. Inl e \<notin> set ls)
         \<and> yielded (complete_stream env st question docsearch h cid db)
             = map source_event docs @ map Answer_event (increments ls)
               @ [Id_event (case cid of Some c \<Rightarrow> c | None \<Rightarrow> new_ObjectId env), End_event]
         \<and> reponse_full (complete_stream env st question docsearch h cid db)
             = concat (increments ls)"
proof -
  let ?l = "if is_azure_configured st then AzureChatOpenAI else ChatOpenAI"
  let ?run = "complete_stream env st question docsearch h cid db"
  obtain docs where d: "docsearch question 2 = Inr docs"
    using assms by (cases "docsearch question 2") (simp_all add: complete_stream_def)
  obtain evs1 r1 where sl: "source_loop docs = (evs1, r1)" by (cases "source_loop docs")
  obtain logged where r1: "r1 = Inr logged"
    using assms d sl by (cases r1) (simp_all add: complete_stream_def)
  have evs1: "evs1 = map source_event docs"
    using source_loop_events [of docs logged] sl r1 by simp
  obtain h' msgs where sp: "stream_prompt env st ?l docs h question = (h', msgs)"
    by (cases "stream_prompt env st ?l docs h question")
  obtain ls where cs: "ChatCompletion_stream env msgs = Inr ls"
    using assms d sl r1 sp by (cases "ChatCompletion_stream env msgs")
      (simp_all add: complete_stream_def)
  obtain evs2 full r2 where al: "answer_loop ls = (evs2, full, r2)"
    by (cases "answer_loop ls")
  have r2: "r2 = None"
    using assms d sl r1 sp cs al by (cases r2) (simp_all add: complete_stream_def)
  from answer_loop_events [of ls evs2 full] al r2
  have evs2: "evs2 = map Answer_event (increments ls)" and full: "full = concat (increments ls)"
    and noerr: "\<forall>e. Inl e \<notin> set ls" by simp_all
  obtain c db' where sv: "stream_save env question full logged cid db = Inr (c, db')"
    using assms d sl r1 sp cs al r2
    by (cases "stream_save env question full logged cid db")
      (auto simp: complete_stream_def)
  have c: "c = (case cid of Some c \<Rightarrow> c | None \<Rightarrow> new_ObjectId env)"
    using sv by (auto simp: stream_save_def split: option.splits sum.splits)
  have y: "yielded ?run = evs1 @ evs2 @ [Id_event c, End_event]"
    and f: "reponse_full ?run = full"
    using d sl r1 sp cs al r2 sv by (simp_all add: complete_stream_def)
  show ?thesis
    using d sp cs noerr y f evs1 evs2 full c by auto
qed

lemma example_stream_raised:
  "raised (complete_stream example_env example_settings ''q'' example_docsearch [] None Map.empty)
     = None"
  by (simp add: complete_stream_def stream_prompt_def stream_save_def example_env_def
      example_settings_def example_docsearch_def example_docs_def example_completion_def)

theorem stream_events_in_order_witness:
  "raised (complete_stream example_env example_settings ''q'' example_docsearch [] None Map.empty)
     = None
   \<and> yielded (complete_stream example_env example_settings ''q'' example_docsearch [] None Map.empty)
       = [Source_event ''alpha'' None,
          Source_event ''beta'' (Some [(''title'', ''docs/guide.md'')]),
          Answer_event ''The '', Answer_event ''answer '', Answer_event ''is 42.'',
          Id_event ''65a000000000000000000001'', End_event]
   \<and> reponse_full
        (complete_stream example_env example_settings ''q'' example_docsearch [] None Map.empty)
       = ''The answer is 42.''"
proof -
  let ?run = "complete_stream example_env example_settings ''q'' example_docsearch [] None Map.empty"
  from stream_events_in_order [OF example_stream_raised]
  obtain docs ls where d: "example_docsearch ''q'' 2 = Inr docs"
    and cs: "ChatCompletion_stream example_env
             (snd (stream_prompt example_env example_settings
                     (if is_azure_configured example_settings then AzureChatOpenAI else ChatOpenAI)
                     docs [] ''q'')) = Inr ls"
    and y: "yielded ?run = map source_event docs @ map Answer_event (increments ls)
               @ [Id_event (case None of Some c \<Rightarrow> c | None \<Rightarrow> new_ObjectId example_env), End_event]"
    and f: "reponse_full ?run = concat (increments ls)"
    by blast
  from d have docs: "docs = example_docs"
    by (simp add: example_docsearch_def example_docs_def)
  from cs have ls: "ls = example_completion" by (simp add: example_env_def)
  from y docs ls have "yielded ?run = [Source_event ''alpha'' None,
          Source_event ''beta'' (Some [(''title'', ''docs/guide.md'')]),
          Answer_event ''The '', Answer_event ''answer '', Answer_event ''is 42.'',
          Id_event ''65a000000000000000000001'', End_event]"
    by (simp add: example_docs_def example_completion_def source_event_def example_env_def)
  moreover from f ls have "reponse_full ?run = ''The answer is 42.''"
    by (simp add: example_completion_def)
  ultimately show ?thesis using example_stream_raised by blast
qed

section \<open>An unsupported model selection\<close>

lemma get_docsearch_calls:
  "snd (get_docsearch env st v) = Inr d \<Longrightarrow> fst (get_docsearch env st v) = [Load_index v]"
  by (auto simp: get_docsearch_def split: if_splits)

lemma get_docsearch_calls_subset: "set (fst (get_docsearch env st v)) \<subseteq> {Load_index v}"
  by (auto simp: get_docsearch_def split: if_splits)

lemma select_llm_unknown:
  "LLM_NAME st \<noteq> ''openai_chat'' \<Longrightarrow> LLM_NAME st \<noteq> ''openai'' \<Longrightarrow> \<not> SELF_HOSTED_MODEL st \<Longrightarrow>
     LLM_NAME st \<noteq> ''cohere'' \<Longrightarrow> select_llm env st h = Inl (ValueError ''unknown LLM model'')"
  by (simp add: select_llm_def)

text \<open>
  Claim C5, as the code has it.  When the settings match none of the supported model
  selections, \<^verbatim>\<open>api_answer\<close> always fails, leaves the history and the collection as they
  were, and issues no similarity search, no chain run and no model call.  But the index
  is loaded first: when the selector resolves and the index loads, the failure is the
  \<^verbatim>\<open>ValueError\<close> with the message \<^verbatim>\<open>unknown LLM model\<close>, raised after exactly one call, the
  index load; when the resolver or the index load fails, that earlier failure is the
  one reported.
\<close>

theorem unknown_model_fails_after_index_load:
  assumes "LLM_NAME st \<noteq> ''openai_chat''" and "LLM_NAME st \<noteq> ''openai''"
    and "\<not> SELF_HOSTED_MODEL st" and "LLM_NAME st \<noteq> ''cohere''"
  shows "(\<exists>e. result (api_answer env st question h data db) = Inl e)
         \<and> (\<forall>v d. get_vectorstore data = Inr v \<and> snd (get_docsearch env st v) = Inr d \<longrightarrow>
               result (api_answer env st question h data db) = Inl (ValueError ''unknown LLM model'')
               \<and> calls (api_answer env st question h data db) = [Load_index v])
         \<and> (\<forall>v. get_vectorstore data = Inr v \<longrightarrow>
               set (calls (api_answer env st question h data db)) \<subseteq> {Load_index v})
         \<and> (\<forall>e. get_vectorstore data = Inl e \<longrightarrow>
               result (api_answer env st question h data db) = Inl e
               \<and> calls (api_answer env st question h data db) = [])
         \<and> (\<forall>v e. get_vectorstore data = Inr v \<and> snd (get_docsearch env st v) = Inl e \<longrightarrow>
               result (api_answer env st question h data db) = Inl e)
         \<and> history_after (api_answer env st question h data db) = h
         \<and> api_store_after (api_answer env st question h data db) = db"
proof -
  note u = select_llm_unknown [OF assms, of env h]
  let ?run = "api_answer env st question h data db"
  show ?thesis
  proof (cases "get_vectorstore data")
    case (Inl e)
    then show ?thesis by (simp add: api_answer_def)
  next
    case (Inr v)
    obtain c1 r1 where gd: "get_docsearch env st v = (c1, r1)" by (cases "get_docsearch env st v")
    show ?thesis
    proof (cases r1)
      case (Inl e)
      with Inr gd get_docsearch_calls_subset [of env st v] show ?thesis
        by (simp add: api_answer_def)
    next
      case (Inr d)
      with gd get_docsearch_calls [of env st v d] have c1: "c1 = [Load_index v]" by simp
      from \<open>get_vectorstore data = Inr v\<close> gd Inr c1 u assms(1) show ?thesis
        by (simp add: api_answer_def history_left_def)
    qed
  qed
qed

lemma example_unknown_run:
  "api_answer example_env (example_settings\<lparr>LLM_NAME := ''gpt-5''\<rparr>) ''q'' [] Map.empty Map.empty
     = \<lparr>result = Inl (ValueError ''unknown LLM model''), calls = [Load_index ''application/''],
        history_after = [], api_store_after = Map.empty\<rparr>"
  by (simp add: api_answer_def get_vectorstore_def os_path_join_def get_docsearch_def
      select_llm_def history_left_def example_env_def example_settings_def)

theorem unknown_model_fails_after_index_load_witness:
  "LLM_NAME (example_settings\<lparr>LLM_NAME := ''gpt-5''\<rparr>) \<noteq> ''openai_chat''
   \<and> LLM_NAME (example_settings\<lparr>LLM_NAME := ''gpt-5''\<rparr>) \<noteq> ''openai''
   \<and> \<not> SELF_HOSTED_MODEL (example_settings\<lparr>LLM_NAME := ''gpt-5''\<rparr>)
   \<and> LLM_NAME (example_settings\<lparr>LLM_NAME := ''gpt-5''\<rparr>) \<noteq> ''cohere''
   \<and> get_vectorstore Map.empty = Inr ''application/''
   \<and> snd (get_docsearch example_env (example_settings\<lparr>LLM_NAME := ''gpt-5''\<rparr>) ''application/'')
       = Inr example_docsearch
   \<and> result (api_answer example_env (example_settings\<lparr>LLM_NAME := ''gpt-5''\<rparr>) ''q'' []
               Map.empty Map.empty) = Inl (ValueError ''unknown LLM model'')
   \<and> calls (api_answer example_env (example_settings\<lparr>LLM_NAME := ''gpt-5''\<rparr>) ''q'' []
               Map.empty Map.empty) = [Load_index ''application/'']
   \<and> get_vectorstore [''active_docs'' \<mapsto> ''local''] = Inl IndexError
   \<and> result (api_answer example_env (example_settings\<lparr>LLM_NAME := ''gpt-5''\<rparr>) ''q'' []
               [''active_docs'' \<mapsto> ''local''] Map.empty) = Inl IndexError
   \<and> calls (api_answer example_env (example_settings\<lparr>LLM_NAME := ''gpt-5''\<rparr>) ''q'' []
               [''active_docs'' \<mapsto> ''local''] Map.empty) = []
   \<and> snd (get_docsearch example_env
             (example_settings\<lparr>LLM_NAME := ''gpt-5'', EMBEDDINGS_NAME := ''none''\<rparr>) ''application/'')
       = Inl (UnboundLocalError ''docsearch'')
   \<and> result (api_answer example_env
               (example_settings\<lparr>LLM_NAME := ''gpt-5'', EMBEDDINGS_NAME := ''none''\<rparr>) ''q'' []
               Map.empty Map.empty) = Inl (UnboundLocalError ''docsearch'')"
proof -
  let ?st = "example_settings\<lparr>LLM_NAME := ''gpt-5''\<rparr>"
  let ?st2 = "example_settings\<lparr>LLM_NAME := ''gpt-5'', EMBEDDINGS_NAME := ''none''\<rparr>"
  have a: "LLM_NAME ?st \<noteq> ''openai_chat''" and b: "LLM_NAME ?st \<noteq> ''openai''"
    and c: "\<not> SELF_HOSTED_MODEL ?st" and d: "LLM_NAME ?st \<noteq> ''cohere''"
    by (simp_all add: example_settings_def)
  have a2: "LLM_NAME ?st2 \<noteq> ''openai_chat''" and b2: "LLM_NAME ?st2 \<noteq> ''openai''"
    and c2: "\<not> SELF_HOSTED_MODEL ?st2" and d2: "LLM_NAME ?st2 \<noteq> ''cohere''"
    by (simp_all add: example_settings_def)
  have gd: "snd (get_docsearch example_env ?st ''application/'') = Inr example_docsearch"
    by (simp add: get_docsearch_def example_env_def example_settings_def)
  have gv: "get_vectorstore [''active_docs'' \<mapsto> ''local''] = Inl IndexError"
    by (simp add: get_vectorstore_def py_index_def)
  have gd2: "snd (get_docsearch example_env ?st2 ''application/'') = Inl (UnboundLocalError ''docsearch'')"
    by (simp add: get_docsearch_def example_settings_def)
  from unknown_model_fails_after_index_load [OF a b c d, of example_env "''q''" "[]" Map.empty Map.empty]
    example_vectorstore gd
  have r1: "result (api_answer example_env ?st ''q'' [] Map.empty Map.empty)
          = Inl (ValueError ''unknown LLM model'')
        \<and> calls (api_answer example_env ?st ''q'' [] Map.empty Map.empty)
          = [Load_index ''application/'']"
    by blast
  from unknown_model_fails_after_index_load [OF a b c d, of example_env "''q''" "[]"
      "[''active_docs'' \<mapsto> ''local'']" Map.empty] gv
  have r2: "result (api_answer example_env ?st ''q'' [] [''active_docs'' \<mapsto> ''local''] Map.empty)
          = Inl IndexError
        \<and> calls (api_answer example_env ?st ''q'' [] [''active_docs'' \<mapsto> ''local''] Map.empty) = []"
    by blast
  from unknown_model_fails_after_index_load [OF a2 b2 c2 d2, of example_env "''q''" "[]" Map.empty Map.empty]
    example_vectorstore gd2
  have r3: "result (api_answer example_env ?st2 ''q'' [] Map.empty Map.empty)
          = Inl (UnboundLocalError ''docsearch'')"
    by blast
  show ?thesis using a b c d example_vectorstore gd r1 gv r2 gd2 r3 by blast
qed

text \<open>
  The claim as written fails: with an unknown model name the index has been loaded by the
  time the failure is raised.
\<close>

theorem index_loaded_before_model_check_counterexample:
  "calls (api_answer example_env (example_settings\<lparr>LLM_NAME := ''gpt-5''\<rparr>) ''q'' []
            Map.empty Map.empty) = [Load_index ''application/'']
   \<and> result (api_answer example_env (example_settings\<lparr>LLM_NAME := ''gpt-5''\<rparr>) ''q'' []
               Map.empty Map.empty) = Inl (ValueError ''unknown LLM model'')"
  by (simp add: example_unknown_run)

section \<open>What a run leaves in the collection\<close>

lemma update_one_push_missing: "db oid = None \<Longrightarrow> update_one_push db oid q = db"
  by (simp add: update_one_push_def)

lemma stream_run_store:
  "(raised (complete_stream env st question docsearch h cid db) \<noteq> None
      \<and> store_after (complete_stream env st question docsearch h cid db) = db)
   \<or> (\<exists>logged c.
         raised (complete_stream env st question docsearch h cid db) = None
       \<and> stream_save env question
           (reponse_full (complete_stream env st question docsearch h cid db)) logged cid db
         = Inr (c, store_after (complete_stream env st question docsearch h cid db)))"
proof -
  let ?l = "if is_azure_configured st then AzureChatOpenAI else ChatOpenAI"
  show ?thesis
  proof (cases "docsearch question 2")
    case (Inl e)
    then show ?thesis by (simp add: complete_stream_def)
  next
    case d: (Inr docs)
    obtain evs1 r1 where sl: "source_loop docs = (evs1, r1)" by (cases "source_loop docs")
    show ?thesis
    proof (cases r1)
      case (Inl e)
      with d sl show ?thesis by (simp add: complete_stream_def)
    next
      case r1: (Inr logged)
      obtain h' msgs where sp: "stream_prompt env st ?l docs h question = (h', msgs)"
        by (cases "stream_prompt env st ?l docs h question")
      show ?thesis
      proof (cases "ChatCompletion_stream env msgs")
        case (Inl e)
        with d sl r1 sp show ?thesis by (simp add: complete_stream_def)
      next
        case cs: (Inr ls)
        obtain evs2 full r2 where al: "answer_loop ls = (evs2, full, r2)"
          by (cases "answer_loop ls")
        show ?thesis
        proof (cases r2)
          case (Some e)
          with d sl r1 sp cs al show ?thesis by (simp add: complete_stream_def)
        next
          case r2: None
          show ?thesis
          proof (cases "stream_save env question full logged cid db")
            case (Inl e)
            with d sl r1 sp cs al r2 show ?thesis by (simp add: complete_stream_def)
          next
            case (Inr cd)
            obtain c db' where cd: "cd = (c, db')" by (cases cd)
            with Inr d sl r1 sp cs al r2 show ?thesis by (simp add: complete_stream_def) blast
          qed
        qed
      qed
    qed
  qed
qed

lemma run_qa_chain:
  "snd (run_qa env st l p d question) = Inr raw \<Longrightarrow> \<exists>ch. run_chain env ch d question = Inr raw"
  by (auto simp: run_qa_def split: if_splits option.splits)

lemma api_run_store:
  "((\<exists>e. result (api_answer env st question h data db) = Inl e)
      \<and> api_store_after (api_answer env st question h data db) = db)
   \<or> (\<exists>l raw srcs c3 ch d.
         run_chain env ch d question = Inr raw
       \<and> answer_save env l question (format_answer raw) srcs (data ''conversation_id'') db
           = (c3, Inr (result_conversation_id (projr (result (api_answer env st question h data db))),
                       api_store_after (api_answer env st question h data db)))
       \<and> result (api_answer env st question h data db)
           = Inr \<lparr>answer = format_answer raw, result_sources = srcs,
                  result_conversation_id =
                    result_conversation_id (projr (result (api_answer env st question h data db)))\<rparr>)"
proof (cases "get_vectorstore data")
  case (Inl e)
  then show ?thesis by (simp add: api_answer_def)
next
  case v: (Inr v)
  obtain c1 r1 where gd: "get_docsearch env st v = (c1, r1)" by (cases "get_docsearch env st v")
  show ?thesis
  proof (cases r1)
    case (Inl e)
    with v gd show ?thesis by (simp add: api_answer_def)
  next
    case d: (Inr d)
    show ?thesis
    proof (cases "select_llm env st h")
      case (Inl e)
      with v gd d show ?thesis by (simp add: api_answer_def)
    next
      case (Inr lph)
      obtain l p h' where lph: "lph = (l, p, h')" by (cases lph)
      note sel = Inr [unfolded lph]
      obtain c2 r2 where rq: "run_qa env st l p d question = (c2, r2)"
        by (cases "run_qa env st l p d question")
      show ?thesis
      proof (cases r2)
        case (Inl e)
        with v gd d sel rq show ?thesis by (simp add: api_answer_def)
      next
        case raw: (Inr raw)
        from rq raw run_qa_chain [of env st l p d question raw]
        obtain ch where ch: "run_chain env ch d question = Inr raw" by auto
        show ?thesis
        proof (cases "d question 2")
          case (Inl e)
          with v gd d sel rq raw show ?thesis by (simp add: api_answer_def)
        next
          case found: (Inr found)
          show ?thesis
          proof (cases "sources_doc found")
            case (Inl e)
            with v gd d sel rq raw found show ?thesis by (simp add: api_answer_def)
          next
            case srcs: (Inr srcs)
            obtain c3 r3 where sv: "answer_save env l question (format_answer raw) srcs
                                      (data ''conversation_id'') db = (c3, r3)"
              by (cases "answer_save env l question (format_answer raw) srcs
                           (data ''conversation_id'') db")
            show ?thesis
            proof (cases r3)
              case (Inl e)
              with v gd d sel rq raw found srcs sv show ?thesis by (simp add: api_answer_def)
            next
              case (Inr cd)
              obtain c db' where cd: "cd = (c, db')" by (cases cd)
              from v gd d sel rq raw found srcs sv Inr cd
              have R: "api_answer env st question h data db =
                  \<lparr>result = Inr \<lparr>answer = format_answer raw, result_sources = srcs,
                                 result_conversation_id = c\<rparr>,
                   calls = c1 @ c2 @ [Similarity_search question 2] @ c3,
                   history_after = h', api_store_after = db'\<rparr>"
                by (simp add: api_answer_def)
              from sv Inr cd ch show ?thesis unfolding R by auto
            qed
          qed
        qed
      qed
    qed
  qed
qed


section \<open>Appending to a conversation that does not exist\<close>

lemma stream_save_missing:
  "ObjectId env c = Inr oid \<Longrightarrow> db oid = None \<Longrightarrow>
     stream_save env question full logged (Some c) db = Inr (c, db)"
  by (simp add: stream_save_def update_one_push_missing)

lemma answer_save_missing:
  "ObjectId env c = Inr oid \<Longrightarrow> db oid = None \<Longrightarrow>
     answer_save env l question a srcs (Some c) db = ([Update_one oid], Inr (c, db))"
  by (simp add: answer_save_def update_one_push_missing)

lemma stream_save_invalid:
  "ObjectId env c = Inl e \<Longrightarrow> stream_save env question full logged (Some c) db = Inl e"
  by (simp add: stream_save_def)

lemma answer_save_invalid:
  "ObjectId env c = Inl e \<Longrightarrow> answer_save env l question a srcs (Some c) db = ([], Inl e)"
  by (simp add: answer_save_def)

text \<open>
  Claim C4, as the code has it.  When the request carries a well-formed identifier that
  names no stored conversation, the append is a silent no-operation: the save step of
  either operation returns normally with the identifier supplied and the collection
  unchanged, so no run creates or changes a conversation, and a successful synchronous
  run reports the identifier supplied.  When the identifier is malformed, the
  constructor's exception is the failure and the collection is unchanged as well.  There
  is no failure of its own for a conversation that is not found.
\<close>

theorem missing_conversation_is_silent:
  "(ObjectId env c = Inr oid \<and> db oid = None \<longrightarrow>
      stream_save env question full logged (Some c) db = Inr (c, db)
    \<and> answer_save env l question a srcs (Some c) db = ([Update_one oid], Inr (c, db))
    \<and> store_after (complete_stream env st question docsearch h (Some c) db) = db
    \<and> (data ''conversation_id'' = Some c \<longrightarrow>
          api_store_after (api_answer env st question h data db) = db
        \<and> (\<forall>r. result (api_answer env st question h data db) = Inr r \<longrightarrow>
              result_conversation_id r = c)))
   \<and> (ObjectId env c = Inl e \<longrightarrow>
        stream_save env question full logged (Some c) db = Inl e
      \<and> answer_save env l question a srcs (Some c) db = ([], Inl e)
      \<and> store_after (complete_stream env st question docsearch h (Some c) db) = db
      \<and> (data ''conversation_id'' = Some c \<longrightarrow>
            api_store_after (api_answer env st question h data db) = db))"
proof (intro conjI impI allI)
  assume a: "ObjectId env c = Inr oid \<and> db oid = None"
  then show "stream_save env question full logged (Some c) db = Inr (c, db)"
    by (simp add: stream_save_missing)
  from a show "answer_save env l question a srcs (Some c) db = ([Update_one oid], Inr (c, db))"
    by (simp add: answer_save_missing)
  from a have s: "stream_save env question full' logged' (Some c) db = Inr (c, db)"
    for full' logged' by (simp add: stream_save_missing)
  from stream_run_store [of env st question docsearch h "Some c" db] s
  show "store_after (complete_stream env st question docsearch h (Some c) db) = db"
    by auto
  {
    assume d: "data ''conversation_id'' = Some c"
    from a have v: "answer_save env l' question a' srcs' (Some c) db = ([Update_one oid], Inr (c, db))"
      for l' a' srcs' by (simp add: answer_save_missing)
    from api_run_store [of env st question h data db] d v
    show "api_store_after (api_answer env st question h data db) = db"
      by auto
    fix r
    assume r: "result (api_answer env st question h data db) = Inr r"
    from api_run_store [of env st question h data db] d v r
    show "result_conversation_id r = c"
      by auto
  }
next
  assume a: "ObjectId env c = Inl e"
  then show "stream_save env question full logged (Some c) db = Inl e"
    by (simp add: stream_save_invalid)
  from a show "answer_save env l question a srcs (Some c) db = ([], Inl e)"
    by (simp add: answer_save_invalid)
  from a have s: "stream_save env question full' logged' (Some c) db = Inl e"
    for full' logged' by (simp add: stream_save_invalid)
  from stream_run_store [of env st question docsearch h "Some c" db] s
  show "store_after (complete_stream env st question docsearch h (Some c) db) = db"
    by auto
  {
    assume d: "data ''conversation_id'' = Some c"
    from a have v: "answer_save env l' question a' srcs' (Some c) db = ([], Inl e)"
      for l' a' srcs' by (simp add: answer_save_invalid)
    from api_run_store [of env st question h data db] d v
    show "api_store_after (api_answer env st question h data db) = db"
      by auto
  }
qed

lemma example_api_missing_run:
  "result (api_answer example_env example_settings ''q'' []
             [''conversation_id'' \<mapsto> ''0123456789abcdef01234567''] Map.empty)
     = Inr \<lparr>answer = ''It is 42.'',
            result_sources = [\<lparr>src_title = ''alpha'', src_text = ''alpha''\<rparr>,
                              \<lparr>src_title = ''docs/guide.md'', src_text = ''beta''\<rparr>],
            result_conversation_id = ''0123456789abcdef01234567''\<rparr>"
  by (simp add: api_answer_def get_vectorstore_def os_path_join_def get_docsearch_def
      select_llm_def run_qa_def format_answer_def py_index_def answer_save_def
      example_env_def example_settings_def example_docsearch_def example_docs_def)

theorem missing_conversation_is_silent_witness:
  "ObjectId example_env ''0123456789abcdef01234567'' = Inr ''0123456789abcdef01234567''
   \<and> (Map.empty :: store) ''0123456789abcdef01234567'' = None
   \<and> store_after (complete_stream example_env example_settings ''q'' example_docsearch []
                     (Some ''0123456789abcdef01234567'') Map.empty) = Map.empty
   \<and> [''conversation_id'' \<mapsto> ''0123456789abcdef01234567''] ''conversation_id''
       = Some ''0123456789abcdef01234567''
   \<and> api_store_after (api_answer example_env example_settings ''q'' []
                         [''conversation_id'' \<mapsto> ''0123456789abcdef01234567''] Map.empty)
       = Map.empty
   \<and> result (api_answer example_env example_settings ''q'' []
               [''conversation_id'' \<mapsto> ''0123456789abcdef01234567''] Map.empty)
       = Inr \<lparr>answer = ''It is 42.'',
              result_sources = [\<lparr>src_title = ''alpha'', src_text = ''alpha''\<rparr>,
                                \<lparr>src_title = ''docs/guide.md'', src_text = ''beta''\<rparr>],
              result_conversation_id = ''0123456789abcdef01234567''\<rparr>
   \<and> ObjectId example_env ''xyz'' = Inl (InvalidId ''xyz'')
   \<and> stream_save example_env ''q'' ''a'' [] (Some ''xyz'') Map.empty = Inl (InvalidId ''xyz'')
   \<and> [''conversation_id'' \<mapsto> ''xyz''] ''conversation_id'' = Some ''xyz''
   \<and> api_store_after (api_answer example_env example_settings ''q'' []
                         [''conversation_id'' \<mapsto> ''xyz''] Map.empty) = Map.empty"
proof -
  let ?c = "''0123456789abcdef01234567''"
  let ?run = "api_answer example_env example_settings ''q'' [] [''conversation_id'' \<mapsto> ?c] Map.empty"
  have a: "ObjectId example_env ?c = Inr ?c"
    by (simp add: example_env_def)
  have b: "(Map.empty :: store) ?c = None" by simp
  have d: "[''conversation_id'' \<mapsto> ?c] ''conversation_id'' = Some ?c" by simp
  have e: "ObjectId example_env ''xyz'' = Inl (InvalidId ''xyz'')"
    by (simp add: example_env_def)
  have d2: "[''conversation_id'' \<mapsto> ''xyz''] ''conversation_id'' = Some ''xyz''" by simp
  note t = missing_conversation_is_silent [of example_env ?c ?c Map.empty "''q''" "''a''" "[]"
      ChatOpenAI "''a''" "[]" example_settings example_docsearch "[]"
      "[''conversation_id'' \<mapsto> ?c]"]
  note t2 = missing_conversation_is_silent [of example_env "''xyz''" "''xyz''" Map.empty "''q''"
      "''a''" "[]" ChatOpenAI "''a''" "[]" example_settings example_docsearch "[]"
      "[''conversation_id'' \<mapsto> ''xyz'']" "InvalidId ''xyz''"]
  from t a b have s1: "store_after (complete_stream example_env example_settings ''q''
      example_docsearch [] (Some ?c) Map.empty) = Map.empty"
    by blast
  from t a b d have s2: "api_store_after ?run = Map.empty"
    by blast
  from t2 e have s3: "stream_save example_env ''q'' ''a'' [] (Some ''xyz'') Map.empty
      = Inl (InvalidId ''xyz'')"
    by blast
  from t2 e d2 have s4: "api_store_after (api_answer example_env example_settings ''q'' []
                         [''conversation_id'' \<mapsto> ''xyz''] Map.empty) = Map.empty"
    by blast
  show ?thesis using a b d e s1 s2 s3 d2 s4 example_api_missing_run by blast
qed

text \<open>
  The claim as written fails: with an identifier that names no conversation both
  operations complete normally and report that identifier.
\<close>

theorem missing_conversation_counterexample:
  "raised (complete_stream example_env example_settings ''q'' example_docsearch []
             (Some ''0123456789abcdef01234567'') Map.empty) = None
   \<and> yielded (complete_stream example_env example_settings ''q'' example_docsearch []
                (Some ''0123456789abcdef01234567'') Map.empty)
       = [Source_event ''alpha'' None,
          Source_event ''beta'' (Some [(''title'', ''docs/guide.md'')]),
          Answer_event ''The '', Answer_event ''answer '', Answer_event ''is 42.'',
          Id_event ''0123456789abcdef01234567'', End_event]
   \<and> result (api_answer example_env example_settings ''q'' []
               [''conversation_id'' \<mapsto> ''0123456789abcdef01234567''] Map.empty)
       = Inr \<lparr>answer = ''It is 42.'',
              result_sources = [\<lparr>src_title = ''alpha'', src_text = ''alpha''\<rparr>,
                                \<lparr>src_title = ''docs/guide.md'', src_text = ''beta''\<rparr>],
              result_conversation_id = ''0123456789abcdef01234567''\<rparr>"
proof -
  have "complete_stream example_env example_settings ''q'' example_docsearch []
             (Some ''0123456789abcdef01234567'') Map.empty
        = \<lparr>yielded = [Source_event ''alpha'' None,
                       Source_event ''beta'' (Some [(''title'', ''docs/guide.md'')]),
                       Answer_event ''The '', Answer_event ''answer '', Answer_event ''is 42.'',
                       Id_event ''0123456789abcdef01234567'', End_event],
           raised = None, reponse_full = ''The answer is 42.'',
           chat_history_after = [], store_after = Map.empty\<rparr>"
    by (simp add: complete_stream_def stream_prompt_def stream_save_def update_one_push_def
        example_env_def example_settings_def example_docsearch_def example_docs_def
        example_completion_def)
  then show ?thesis using example_api_missing_run by simp
qed

section \<open>Cutting the answer at the sources marker\<close>

lemma py_replace_hit:
  "old \<noteq> [] \<Longrightarrow> prefix old (c # cs) \<Longrightarrow>
     py_replace old new (c # cs) = new @ py_replace old new (drop (length old) (c # cs))"
  by simp

lemma py_replace_miss:
  "\<not> (old \<noteq> [] \<and> prefix old (c # cs)) \<Longrightarrow>
     py_replace old new (c # cs) = c # py_replace old new cs"
  by auto

lemma py_split_hit:
  "sep \<noteq> [] \<Longrightarrow> prefix sep (c # cs) \<Longrightarrow> hd (py_split sep (c # cs)) = []"
  by simp

lemma py_split_miss:
  "\<not> (sep \<noteq> [] \<and> prefix sep (c # cs)) \<Longrightarrow>
     hd (py_split sep (c # cs)) = c # hd (py_split sep cs)"
  using py_split_not_Nil [of sep cs] by (cases "py_split sep cs") auto

lemma hd_py_split_prefix: "prefix (hd (py_split sep s)) s"
proof (induction s)
  case Nil
  show ?case by simp
next
  case (Cons c cs)
  show ?case
  proof (cases "sep \<noteq> [] \<and> prefix sep (c # cs)")
    case True
    then have "hd (py_split sep (c # cs)) = []" by (simp add: py_split_hit)
    then show ?thesis by simp
  next
    case False
    from py_split_miss [OF False] Cons.IH show ?thesis by simp
  qed
qed

lemma hd_py_split_no_sep: "sep \<noteq> [] \<Longrightarrow> \<not> sublist sep (hd (py_split sep s))"
proof (induction s)
  case Nil
  then show ?case by simp
next
  case (Cons c cs)
  show ?case
  proof (cases "prefix sep (c # cs)")
    case True
    with Cons.prems have "hd (py_split sep (c # cs)) = []" by (simp add: py_split_hit)
    with Cons.prems show ?thesis by simp
  next
    case False
    then have h: "hd (py_split sep (c # cs)) = c # hd (py_split sep cs)"
      by (intro py_split_miss) simp
    have np: "\<not> prefix sep (c # hd (py_split sep cs))"
    proof
      assume "prefix sep (c # hd (py_split sep cs))"
      moreover have "prefix (c # hd (py_split sep cs)) (c # cs)"
        using hd_py_split_prefix [of sep cs] by simp
      ultimately have "prefix sep (c # cs)" by (rule prefix_order.trans)
      with False show False by simp
    qed
    from Cons.IH [OF Cons.prems] np have "\<not> sublist sep (c # hd (py_split sep cs))"
      by (simp add: sublist_Cons_right)
    with h show ?thesis by simp
  qed
qed

lemma py_split_absent: "\<not> sublist sep s \<Longrightarrow> py_split sep s = [s]"
proof (induction s)
  case Nil
  show ?case by simp
next
  case (Cons c cs)
  from Cons.prems have np: "\<not> prefix sep (c # cs)" and ns: "\<not> sublist sep cs"
    by (simp_all add: sublist_Cons_right)
  from Cons.IH [OF ns] np show ?case by simp
qed

lemma hd_py_split_cut:
  "sep \<noteq> [] \<Longrightarrow> sublist sep s \<Longrightarrow> prefix (hd (py_split sep s) @ sep) s"
proof (induction s)
  case Nil
  then show ?case by simp
next
  case (Cons c cs)
  show ?case
  proof (cases "prefix sep (c # cs)")
    case True
    with Cons.prems have "hd (py_split sep (c # cs)) = []" by (simp add: py_split_hit)
    with True show ?thesis by simp
  next
    case False
    then have h: "hd (py_split sep (c # cs)) = c # hd (py_split sep cs)"
      by (intro py_split_miss) simp
    from Cons.prems False have "sublist sep cs" by (simp add: sublist_Cons_right)
    from Cons.IH [OF Cons.prems(1) this] h show ?thesis by simp
  qed
qed

lemma sublist_skip_disjoint:
  "set xs \<inter> set m = {} \<Longrightarrow> m \<noteq> [] \<Longrightarrow> sublist m (xs @ t) \<Longrightarrow> sublist m t"
proof (induction xs)
  case Nil
  then show ?case by simp
next
  case (Cons x xs)
  from Cons.prems have "\<not> prefix m (x # (xs @ t))"
    by (cases m) auto
  with Cons.prems have "sublist m (xs @ t)" by (simp add: sublist_Cons_right)
  with Cons show ?case by simp
qed

lemma prefix_py_replace:
  "set old \<inter> set m = {} \<Longrightarrow> prefix m s \<Longrightarrow> prefix m (py_replace old new s)"
proof (induction m arbitrary: s)
  case Nil
  show ?case by simp
next
  case (Cons a m)
  from Cons.prems obtain t where s: "s = a # t" and p: "prefix m t"
    by (cases s) auto
  from Cons.prems have miss: "\<not> (old \<noteq> [] \<and> prefix old (a # t))"
    by (cases old) auto
  from Cons.prems have "set old \<inter> set m = {}" by auto
  from Cons.IH [OF this p] have "prefix (a # m) (a # py_replace old new t)" by simp
  with py_replace_miss [OF miss, of new] s show ?case by simp
qed

lemma py_replace_keeps:
  "set old \<inter> set m = {} \<Longrightarrow> sublist m s \<Longrightarrow> sublist m (py_replace old new s)"
proof (induction "length s" arbitrary: s rule: less_induct)
  case less
  show ?case
  proof (cases s)
    case Nil
    with less.prems show ?thesis by simp
  next
    case (Cons c cs)
    show ?thesis
    proof (cases "m = []")
      case True
      then show ?thesis by simp
    next
      case ne: False
      show ?thesis
      proof (cases "old \<noteq> [] \<and> prefix old (c # cs)")
        case hit: True
        then obtain t where t: "c # cs = old @ t" by (auto simp: prefix_def)
        with less.prems ne Cons have st: "sublist m t"
          using sublist_skip_disjoint [of old m t] by simp
        from t hit have len: "length t < length s" unfolding Cons
          by (metis length_append length_greater_0_conv less_add_same_cancel2)
        from less.hyps [OF len less.prems(1) st] have "sublist m (py_replace old new t)" .
        then have "sublist m (new @ py_replace old new t)"
          by (metis sublist_append_leftI sublist_order.order.trans)
        moreover from t have "drop (length old) (c # cs) = t" by simp
        ultimately show ?thesis using hit Cons by (simp add: py_replace_hit)
      next
        case miss: False
        show ?thesis
        proof (cases "prefix m (c # cs)")
          case True
          with Cons have "prefix m s" by simp
          from prefix_py_replace [OF less.prems(1) this, of new] show ?thesis
            by (rule prefix_imp_sublist)
        next
          case False
          with less.prems Cons have "sublist m cs" by (simp add: sublist_Cons_right)
          with less.hyps [of cs] less.prems(1) Cons have "sublist m (py_replace old new cs)"
            by simp
          then have "sublist m (c # py_replace old new cs)" by (simp add: sublist_Cons_right)
          with py_replace_miss [OF miss, of new] Cons show ?thesis by simp
        qed
      qed
    qed
  qed
qed

lemma prefix_py_replace_back:
  "x \<notin> set m \<Longrightarrow> prefix m (py_replace old [x] s) \<Longrightarrow> prefix m s"
proof (induction m arbitrary: s)
  case Nil
  show ?case by simp
next
  case (Cons a m)
  show ?case
  proof (cases s)
    case Nil
    with Cons.prems show ?thesis by simp
  next
    case s: (Cons d ds)
    show ?thesis
    proof (cases "old \<noteq> [] \<and> prefix old (d # ds)")
      case True
      then have "py_replace old [x] (d # ds) = x # py_replace old [x] (drop (length old) (d # ds))"
        by (simp add: py_replace_hit)
      with Cons.prems s show ?thesis by simp
    next
      case False
      from py_replace_miss [OF False, of "[x]"] Cons.prems s
      have "a = d" and "prefix m (py_replace old [x] ds)" by simp_all
      moreover from Cons.prems have "x \<notin> set m" by simp
      ultimately show ?thesis using Cons.IH [of ds] s by simp
    qed
  qed
qed

lemma py_replace_adds_none:
  "x \<notin> set m \<Longrightarrow> sublist m (py_replace old [x] s) \<Longrightarrow> sublist m s"
proof (induction "length s" arbitrary: s rule: less_induct)
  case less
  show ?case
  proof (cases s)
    case Nil
    with less.prems show ?thesis by simp
  next
    case (Cons c cs)
    show ?thesis
    proof (cases "m = []")
      case True
      then show ?thesis by simp
    next
      case ne: False
      show ?thesis
      proof (cases "old \<noteq> [] \<and> prefix old (c # cs)")
        case hit: True
        let ?t = "drop (length old) (c # cs)"
        from hit less.prems Cons have s: "sublist m (x # py_replace old [x] ?t)"
          by (simp add: py_replace_hit)
        from less.prems(1) ne have "\<not> prefix m (x # py_replace old [x] ?t)"
          by (cases m) auto
        with s have st: "sublist m (py_replace old [x] ?t)"
          by (simp add: sublist_Cons_right)
        from hit have len: "length ?t < length s" unfolding Cons by (cases old) auto
        from less.hyps [OF len less.prems(1) st] have "sublist m ?t" .
        then have "sublist m (c # cs)" by (metis sublist_drop sublist_order.order.trans)
        with Cons show ?thesis by simp
      next
        case miss: False
        from py_replace_miss [OF miss, of "[x]"] less.prems Cons
        have s: "sublist m (c # py_replace old [x] cs)" by simp
        show ?thesis
        proof (cases "prefix m (c # py_replace old [x] cs)")
          case True
          with py_replace_miss [OF miss, of "[x]"] have "prefix m (py_replace old [x] (c # cs))"
            by simp
          from prefix_py_replace_back [OF less.prems(1) this] Cons show ?thesis
            by simp
        next
          case False
          with s have "sublist m (py_replace old [x] cs)" by (simp add: sublist_Cons_right)
          with less.hyps [of cs] less.prems(1) Cons have "sublist m cs" by simp
          with Cons show ?thesis by (simp add: sublist_Cons_right)
        qed
      qed
    qed
  qed
qed


lemma format_answer_hd:
  "format_answer raw = hd (py_split ''SOURCES:'' (py_replace [CHR 0x5C, CHR ''n''] [CHR 0x0A] raw))"
  by (simp add: format_answer_def py_index_0 Let_def)

lemma format_answer_no_marker: "\<not> sublist ''SOURCES:'' (format_answer raw)"
  unfolding format_answer_hd by (rule hd_py_split_no_sep) simp

lemma format_answer_absent:
  assumes "\<not> sublist ''SOURCES:'' raw"
  shows "format_answer raw = py_replace [CHR 0x5C, CHR ''n''] [CHR 0x0A] raw"
proof -
  have "CHR 0x0A \<notin> set ''SOURCES:''" by simp
  from py_replace_adds_none [OF this] assms
  have "\<not> sublist ''SOURCES:'' (py_replace [CHR 0x5C, CHR ''n''] [CHR 0x0A] raw)" by blast
  from py_split_absent [OF this] show ?thesis by (simp add: format_answer_hd)
qed

lemma format_answer_present:
  assumes "sublist ''SOURCES:'' raw"
  shows "prefix (format_answer raw @ ''SOURCES:'')
           (py_replace [CHR 0x5C, CHR ''n''] [CHR 0x0A] raw)"
proof -
  have "set [CHR 0x5C, CHR ''n''] \<inter> set ''SOURCES:'' = {}" by simp
  from py_replace_keeps [OF this assms]
  have "sublist ''SOURCES:'' (py_replace [CHR 0x5C, CHR ''n''] [CHR 0x0A] raw)" .
  from hd_py_split_cut [OF _ this] show ?thesis by (simp add: format_answer_hd)
qed

lemma answer_save_response:
  "answer_save env l question a srcs cid db = (c3, Inr (c, db')) \<Longrightarrow>
     db' oid = Some conv \<Longrightarrow> db oid \<noteq> Some conv \<Longrightarrow>
     queries conv \<noteq> [] \<and> response (last (queries conv)) = a"
  by (auto simp: answer_save_def update_one_push_def insert_one_def
      split: option.splits sum.splits if_splits)

text \<open>
  Claim C3, as the code has it, for the synchronous operation.  The answer is the raw
  output in which every two-character sequence backslash, \<open>n\<close> has been replaced by a
  newline, cut before an occurrence of \<^verbatim>\<open>SOURCES:\<close>.  It never contains the marker; when the
  raw output has no marker the answer is the raw output after that replacement, not the
  raw output itself; when it has one, the answer followed by the marker is an initial
  segment of the replaced output.  The answer returned by a successful run is the output
  of the chain formatted in this way, and it is the response stored with the turn.
\<close>

theorem answer_never_contains_marker:
  "\<not> sublist ''SOURCES:'' (format_answer raw)
   \<and> (\<not> sublist ''SOURCES:'' raw \<longrightarrow>
        format_answer raw = py_replace [CHR 0x5C, CHR ''n''] [CHR 0x0A] raw)
   \<and> (sublist ''SOURCES:'' raw \<longrightarrow>
        prefix (format_answer raw @ ''SOURCES:'')
          (py_replace [CHR 0x5C, CHR ''n''] [CHR 0x0A] raw))
   \<and> (\<forall>r. result (api_answer env st question h data db) = Inr r \<longrightarrow>
        \<not> sublist ''SOURCES:'' (answer r)
        \<and> (\<exists>ch d raw'. run_chain env ch d question = Inr raw' \<and> answer r = format_answer raw')
        \<and> (\<forall>oid conv. api_store_after (api_answer env st question h data db) oid = Some conv
                       \<and> db oid \<noteq> Some conv \<longrightarrow>
              queries conv \<noteq> [] \<and> response (last (queries conv)) = answer r))"
proof (intro conjI allI impI)
  show "\<not> sublist ''SOURCES:'' (format_answer raw)" by (rule format_answer_no_marker)
  show "format_answer raw = py_replace [CHR 0x5C, CHR ''n''] [CHR 0x0A] raw"
    if "\<not> sublist ''SOURCES:'' raw" using that by (rule format_answer_absent)
  show "prefix (format_answer raw @ ''SOURCES:'') (py_replace [CHR 0x5C, CHR ''n''] [CHR 0x0A] raw)"
    if "sublist ''SOURCES:'' raw" using that by (rule format_answer_present)
next
  fix r
  assume r: "result (api_answer env st question h data db) = Inr r"
  let ?run = "api_answer env st question h data db"
  from api_run_store [of env st question h data db] r
  obtain l raw' srcs c3 ch d where ch: "run_chain env ch d question = Inr raw'"
    and sv: "answer_save env l question (format_answer raw') srcs (data ''conversation_id'') db
           = (c3, Inr (result_conversation_id (projr (result ?run)), api_store_after ?run))"
    and res: "result ?run = Inr \<lparr>answer = format_answer raw', result_sources = srcs,
                  result_conversation_id = result_conversation_id (projr (result ?run))\<rparr>"
    by auto
  from r res have "r = \<lparr>answer = format_answer raw', result_sources = srcs,
                  result_conversation_id = result_conversation_id (projr (result ?run))\<rparr>"
    by (simp only: sum.inject)
  then have "answer r = answer \<lparr>answer = format_answer raw', result_sources = srcs,
                  result_conversation_id = result_conversation_id (projr (result ?run))\<rparr>"
    by (rule arg_cong)
  then have a: "answer r = format_answer raw'" by (simp only: api_result.select_convs)
  show "\<not> sublist ''SOURCES:'' (answer r)" unfolding a by (rule format_answer_no_marker)
  from ch a show "\<exists>ch d raw'. run_chain env ch d question = Inr raw' \<and> answer r = format_answer raw'"
    by blast
  fix oid conv
  assume "api_store_after ?run oid = Some conv \<and> db oid \<noteq> Some conv"
  with answer_save_response [OF sv, of oid conv] a
  show "queries conv \<noteq> []" and "response (last (queries conv)) = answer r" by simp_all
qed


lemma example_sources_run:
  "api_answer example_env_sources example_settings ''q'' [] Map.empty Map.empty
     = \<lparr>result = Inr \<lparr>answer = ''It is 42.'' @ [CHR 0x0A],
                       result_sources = [\<lparr>src_title = ''alpha'', src_text = ''alpha''\<rparr>,
                                         \<lparr>src_title = ''docs/guide.md'', src_text = ''beta''\<rparr>],
                       result_conversation_id = ''65a000000000000000000001''\<rparr>,
        calls = [Load_index ''application/'', Chain_run, Similarity_search ''q'' 2,
                 Predict_messages, Insert_one ''65a000000000000000000001''],
        history_after = [],
        api_store_after =
          [''65a000000000000000000001'' \<mapsto>
             \<lparr>user = ''local'', date = ''2023-09-01T00:00:00'', name = ''Life question'',
              queries = [\<lparr>prompt = ''q'', response = ''It is 42.'' @ [CHR 0x0A],
                          sources = [\<lparr>src_title = ''alpha'', src_text = ''alpha''\<rparr>,
                                     \<lparr>src_title = ''docs/guide.md'', src_text = ''beta''\<rparr>]\<rparr>]\<rparr>]\<rparr>"
  by (simp add: api_answer_def get_vectorstore_def os_path_join_def get_docsearch_def
      select_llm_def run_qa_def format_answer_def py_index_def answer_save_def insert_one_def
      example_env_sources_def example_env_def example_settings_def example_docsearch_def
      example_docs_def)

theorem answer_never_contains_marker_witness:
  "\<not> sublist ''SOURCES:'' (''a'' @ [CHR 0x5C, CHR ''n''] @ ''b'')
   \<and> format_answer (''a'' @ [CHR 0x5C, CHR ''n''] @ ''b'') = ''a'' @ [CHR 0x0A] @ ''b''
   \<and> sublist ''SOURCES:'' (''It is 42.'' @ [CHR 0x5C, CHR ''n''] @ ''SOURCES: a.md'')
   \<and> prefix (format_answer (''It is 42.'' @ [CHR 0x5C, CHR ''n''] @ ''SOURCES: a.md'') @ ''SOURCES:'')
        (''It is 42.'' @ [CHR 0x0A] @ ''SOURCES: a.md'')
   \<and> result (api_answer example_env_sources example_settings ''q'' [] Map.empty Map.empty)
       = Inr \<lparr>answer = ''It is 42.'' @ [CHR 0x0A],
              result_sources = [\<lparr>src_title = ''alpha'', src_text = ''alpha''\<rparr>,
                                \<lparr>src_title = ''docs/guide.md'', src_text = ''beta''\<rparr>],
              result_conversation_id = ''65a000000000000000000001''\<rparr>
   \<and> \<not> sublist ''SOURCES:'' (''It is 42.'' @ [CHR 0x0A])
   \<and> api_store_after (api_answer example_env_sources example_settings ''q'' [] Map.empty Map.empty)
        ''65a000000000000000000001''
       = Some \<lparr>user = ''local'', date = ''2023-09-01T00:00:00'', name = ''Life question'',
               queries = [\<lparr>prompt = ''q'', response = ''It is 42.'' @ [CHR 0x0A],
                           sources = [\<lparr>src_title = ''alpha'', src_text = ''alpha''\<rparr>,
                                      \<lparr>src_title = ''docs/guide.md'', src_text = ''beta''\<rparr>]\<rparr>]\<rparr>
   \<and> response (last [\<lparr>prompt = ''q'', response = ''It is 42.'' @ [CHR 0x0A],
                        sources = [\<lparr>src_title = ''alpha'', src_text = ''alpha''\<rparr>,
                                   \<lparr>src_title = ''docs/guide.md'', src_text = ''beta''\<rparr>]\<rparr>])
       = ''It is 42.'' @ [CHR 0x0A]"
proof -
  let ?raw1 = "''a'' @ [CHR 0x5C, CHR ''n''] @ ''b''"
  let ?raw2 = "''It is 42.'' @ [CHR 0x5C, CHR ''n''] @ ''SOURCES: a.md''"
  let ?run = "api_answer example_env_sources example_settings ''q'' [] Map.empty Map.empty"
  let ?srcs = "[\<lparr>src_title = ''alpha'', src_text = ''alpha''\<rparr>,
                \<lparr>src_title = ''docs/guide.md'', src_text = ''beta''\<rparr>]"
  let ?r = "\<lparr>answer = ''It is 42.'' @ [CHR 0x0A], result_sources = ?srcs,
              result_conversation_id = ''65a000000000000000000001''\<rparr>"
  let ?q = "\<lparr>prompt = ''q'', response = ''It is 42.'' @ [CHR 0x0A], sources = ?srcs\<rparr>"
  let ?conv = "\<lparr>user = ''local'', date = ''2023-09-01T00:00:00'', name = ''Life question'',
               queries = [?q]\<rparr>"
  have a: "\<not> sublist ''SOURCES:'' ?raw1" by (simp add: sublist_Cons_right)
  have b: "sublist ''SOURCES:'' ?raw2" by (simp add: sublist_Cons_right)
  have r: "result ?run = Inr ?r" by (simp add: example_sources_run)
  have st: "api_store_after ?run ''65a000000000000000000001'' = Some ?conv"
    by (simp add: example_sources_run)
  have new: "(Map.empty :: store) ''65a000000000000000000001'' \<noteq> Some ?conv" by simp
  note t1 = answer_never_contains_marker [of ?raw1 example_env_sources example_settings "''q''"
      "[]" Map.empty Map.empty]
  note t2 = answer_never_contains_marker [of ?raw2 example_env_sources example_settings "''q''"
      "[]" Map.empty Map.empty]
  from t1 a have "format_answer ?raw1 = py_replace [CHR 0x5C, CHR ''n''] [CHR 0x0A] ?raw1"
    by blast
  then have c: "format_answer ?raw1 = ''a'' @ [CHR 0x0A] @ ''b''" by simp
  from t2 b have "prefix (format_answer ?raw2 @ ''SOURCES:'')
      (py_replace [CHR 0x5C, CHR ''n''] [CHR 0x0A] ?raw2)"
    by blast
  then have d: "prefix (format_answer ?raw2 @ ''SOURCES:'')
      (''It is 42.'' @ [CHR 0x0A] @ ''SOURCES: a.md'')" by simp
  from t2 r have "\<not> sublist ''SOURCES:'' (answer ?r)" by blast
  then have e: "\<not> sublist ''SOURCES:'' (''It is 42.'' @ [CHR 0x0A])" by simp
  from t2 r st new have "response (last (queries ?conv)) = answer ?r" by blast
  then have f: "response (last [?q]) = ''It is 42.'' @ [CHR 0x0A]" by simp
  show ?thesis using a b c d r e st f by blast
qed

text \<open>
  The claim as written fails twice: a raw output without the marker does not pass through
  unchanged when it holds a backslash followed by \<open>n\<close>; and \<^verbatim>\<open>complete_stream\<close> cuts
  nothing, so a streamed answer with the marker is stored with it.
\<close>

theorem answer_marker_counterexample:
  "\<not> sublist ''SOURCES:'' (''a'' @ [CHR 0x5C, CHR ''n''] @ ''b'')
   \<and> format_answer (''a'' @ [CHR 0x5C, CHR ''n''] @ ''b'') \<noteq> ''a'' @ [CHR 0x5C, CHR ''n''] @ ''b''
   \<and> raised (complete_stream example_env_sources example_settings ''q'' example_docsearch []
               None Map.empty) = None
   \<and> reponse_full (complete_stream example_env_sources example_settings ''q'' example_docsearch []
                     None Map.empty) = ''It is 42.SOURCES: a.md''
   \<and> map_option (map response \<circ> queries)
        (store_after (complete_stream example_env_sources example_settings ''q'' example_docsearch
                        [] None Map.empty) ''65a000000000000000000001'')
       = Some [''It is 42.SOURCES: a.md'']"
proof -
  have "complete_stream example_env_sources example_settings ''q'' example_docsearch [] None Map.empty
      = \<lparr>yielded = [Source_event ''alpha'' None,
                     Source_event ''beta'' (Some [(''title'', ''docs/guide.md'')]),
                     Answer_event ''It is 42.'', Answer_event ''SOURCES: a.md'',
                     Id_event ''65a000000000000000000001'', End_event],
         raised = None, reponse_full = ''It is 42.SOURCES: a.md'',
         chat_history_after = [],
         store_after =
           [''65a000000000000000000001'' \<mapsto>
              \<lparr>user = ''local'', date = ''2023-09-01T00:00:00'', name = ''Life question'',
               queries = [\<lparr>prompt = ''q'', response = ''It is 42.SOURCES: a.md'',
                           sources = [\<lparr>src_title = ''alpha'', src_text = ''alpha''\<rparr>,
                                      \<lparr>src_title = ''guide.md'', src_text = ''beta''\<rparr>]\<rparr>]\<rparr>]\<rparr>"
    by (simp add: complete_stream_def stream_prompt_def stream_save_def insert_one_def
        example_env_sources_def example_env_def example_settings_def example_docsearch_def
        example_docs_def)
  moreover have "\<not> sublist ''SOURCES:'' (''a'' @ [CHR 0x5C, CHR ''n''] @ ''b'')"
    by (simp add: sublist_Cons_right)
  moreover have "format_answer (''a'' @ [CHR 0x5C, CHR ''n''] @ ''b'') \<noteq> ''a'' @ [CHR 0x5C, CHR ''n''] @ ''b''"
    by (simp add: format_answer_def py_index_def)
  ultimately show ?thesis by simp
qed

end
